theory Spec2Isabelle
  imports Complex_Main "HOL-Library.Sublist"
begin

chapter \<open>Chimera core: context assembly, tool-call loop, summarisation, cascading delete\<close>

text \<open>
  A shallow embedding of \<^verbatim>\<open>chimera_core/context_engine.py\<close>,
  \<^verbatim>\<open>chimera_core/orchestrator.py\<close>, the four memory managers under
  \<^verbatim>\<open>chimera_core/memory/\<close> and the two providers under
  \<^verbatim>\<open>chimera_core/providers/\<close>.

  Conventions.
  \<^item> A Python \<^verbatim>\<open>str\<close> is a \<open>string\<close>; one \<open>char\<close> stands for one code point
    (the texts of the source lie in Latin-1), so \<open>length\<close> is Python's \<^verbatim>\<open>len\<close>.
  \<^item> A value that may be \<^verbatim>\<open>None\<close> is an \<open>option\<close>.
  \<^item> Everything outside the process (the model APIs, SQLite, Redis, ChromaDB, Neo4j, the
    JSON codec, the plugins, the classifiers of the personality engine) is a field of the
    record \<open>env\<close>: what the call returns and whether it fails.
  \<^item> The mutable state (the four stores and the orchestrator's \<^verbatim>\<open>llm_config\<close>) is the
    record \<open>world\<close>; it also carries \<open>trace\<close>, the list of the external calls issued so far.
  \<^item> An exception that leaves a function is the \<open>Inl\<close> of its result; an exception that
    the source catches is a branch of the function that catches it.
  \<^item> Logging is not modelled.
\<close>

section \<open>Python values\<close>

datatype exn =
    SqliteError
  | RedisError
  | AttributeError
  | TypeError
  | JSONDecodeError

datatype json =
    JNull
  | JBool bool
  | JNum real
  | JStr string
  | JArr "json list"
  | JObj "(string \<times> json) list"

fun is_str :: "json \<Rightarrow> bool" where
  "is_str (JStr s) = True"
| "is_str j = False"

fun str_of :: "json \<Rightarrow> string" where
  "str_of (JStr s) = s"
| "str_of j = []"

text \<open>\<^verbatim>\<open>str.isspace\<close> on the code points below 256, and \<^verbatim>\<open>str.strip()\<close>.\<close>

definition py_isspace :: "char \<Rightarrow> bool" where
  "py_isspace c = ((of_char c :: nat) \<in> {9, 10, 11, 12, 13, 28, 29, 30, 31, 32, 133, 160})"

definition strip :: "string \<Rightarrow> string" where
  "strip s = rev (dropWhile py_isspace (rev (dropWhile py_isspace s)))"

definition startswith :: "string \<Rightarrow> char \<Rightarrow> bool" where
  "startswith s c = (case s of [] \<Rightarrow> False | x # xs \<Rightarrow> x = c)"

text \<open>\<^verbatim>\<open>sep.join(parts)\<close>.\<close>

fun join :: "string \<Rightarrow> string list \<Rightarrow> string" where
  "join sep [] = []"
| "join sep [x] = x"
| "join sep (x # y # ys) = x @ sep @ join sep (y # ys)"

text \<open>How an f-string renders a value that may be \<^verbatim>\<open>None\<close>.\<close>

definition py_str :: "string option \<Rightarrow> string" where
  "py_str v = (case v of None \<Rightarrow> ''None'' | Some s \<Rightarrow> s)"

definition nl :: string where "nl = [CHR 0x0A]"
definition dq :: string where "dq = [CHR 0x22]"
definition sq :: string where "sq = [CHR 0x27]"
definition a_acute :: string where "a_acute = [CHR 0xE1]"
definition e_acute :: string where "e_acute = [CHR 0xE9]"
definition i_acute :: string where "i_acute = [CHR 0xED]"
definition o_acute :: string where "o_acute = [CHR 0xF3]"
definition u_acute :: string where "u_acute = [CHR 0xFA]"
definition inv_question :: string where "inv_question = [CHR 0xBF]"

subsection \<open>Insertion-ordered dictionaries\<close>

text \<open>
  A Python \<^verbatim>\<open>dict\<close> keeps its keys in insertion order; assigning to a key that is
  present keeps the key's place. \<^verbatim>\<open>dict.fromkeys(xs)\<close> assigns \<^verbatim>\<open>None\<close> to each
  element of \<open>xs\<close> in turn, and \<^verbatim>\<open>list(d)\<close> lists the keys.
\<close>

fun dict_setitem :: "('k \<times> 'v) list \<Rightarrow> 'k \<Rightarrow> 'v \<Rightarrow> ('k \<times> 'v) list" where
  "dict_setitem [] k v = [(k, v)]"
| "dict_setitem ((k', v') # d) k v =
     (if k' = k then (k', v) # d else (k', v') # dict_setitem d k v)"

definition dict_fromkeys :: "'k list \<Rightarrow> ('k \<times> unit) list" where
  "dict_fromkeys xs = foldl (\<lambda>d k. dict_setitem d k ()) [] xs"

definition dict_keys :: "('k \<times> 'v) list \<Rightarrow> 'k list" where
  "dict_keys d = map fst d"

text \<open>What assigning to key \<open>k\<close> does to the list of keys.\<close>

definition key_insert :: "'k list \<Rightarrow> 'k \<Rightarrow> 'k list" where
  "key_insert ks k = (if k \<in> set ks then ks else ks @ [k])"

definition dict_get :: "('k \<times> 'v) list \<Rightarrow> 'k \<Rightarrow> 'v option" where
  "dict_get d k = map_of d k"

section \<open>Snippet post-processing (build_augmented_prompt, lines 144 and 164)\<close>

text \<open>\<^verbatim>\<open>doc[:300] + "..." if len(doc) > 300 else doc\<close>\<close>

definition truncate_doc :: "string \<Rightarrow> string" where
  "truncate_doc doc = (if length doc > 300 then take 300 doc @ ''...'' else doc)"

text \<open>\<^verbatim>\<open>unique_snippets = list(dict.fromkeys(relevant_context_snippets))\<close>\<close>

definition unique_snippets :: "string list \<Rightarrow> string list" where
  "unique_snippets relevant_context_snippets =
     dict_keys (dict_fromkeys relevant_context_snippets)"

text \<open>Position \<open>i\<close> of \<open>xs\<close> holds the first occurrence of its element.\<close>

definition first_occurrence :: "'a list \<Rightarrow> nat \<Rightarrow> bool" where
  "first_occurrence xs i = (xs ! i \<notin> set (take i xs))"

section \<open>Conversation data\<close>

text \<open>A turn of the recent-turn buffer: the dictionary \<^verbatim>\<open>{"role": r, "content": c}\<close>.\<close>

datatype turn = Turn (turn_role: string) (turn_content: "string option")

text \<open>
  \<^verbatim>\<open>ChatCompletionMessage\<close> of the OpenAI client: \<^verbatim>\<open>content\<close> and
  \<^verbatim>\<open>tool_calls\<close> may each be \<^verbatim>\<open>None\<close>. A tool call carries its id, the function's
  name and the function's arguments as JSON text.
\<close>

datatype tool_call =
  ToolCall (tc_id: string) (tc_name: string) (tc_arguments: string)

datatype message =
  Message (msg_role: string) (msg_content: "string option")
    (msg_tool_calls: "tool_call list option")

text \<open>
  What \<^verbatim>\<open>generate_response\<close> hands back: the OpenAI provider returns a message object,
  the Gemini provider a dictionary \<^verbatim>\<open>{"role": ..., "content": ...}\<close>.
\<close>

datatype response =
    MessageObject message
  | DictResponse string string

text \<open>
  The entries of \<^verbatim>\<open>api_history\<close>: a role/content dictionary, the dump of a model
  message (\<^verbatim>\<open>response_message.model_dump()\<close>), or a tool result
  \<^verbatim>\<open>{"tool_call_id", "role": "tool", "name", "content"}\<close>.
\<close>

datatype chat_entry =
    RoleContent string "string option"
  | MessageDump message
  | ToolMessage (tm_call_id: string) (tm_name: string) (tm_content: string)

fun entry_role :: "chat_entry \<Rightarrow> string" where
  "entry_role (RoleContent r c) = r"
| "entry_role (MessageDump m) = msg_role m"
| "entry_role (ToolMessage i n c) = ''tool''"

fun entry_content :: "chat_entry \<Rightarrow> string option" where
  "entry_content (RoleContent r c) = c"
| "entry_content (MessageDump m) = msg_content m"
| "entry_content (ToolMessage i n c) = Some c"

definition entry_of_turn :: "turn \<Rightarrow> chat_entry" where
  "entry_of_turn t = RoleContent (turn_role t) (turn_content t)"

text \<open>\<^verbatim>\<open>ToolSignature\<close> (plugins/mcp_base.py).\<close>

datatype tool_signature =
  ToolSignature (tool_name: string) (tool_description: string) (tool_parameters: json)

section \<open>External calls\<close>

text \<open>The keyword arguments of \<^verbatim>\<open>client.chat.completions.create\<close>.\<close>

record api_args =
  arg_model :: string
  arg_messages :: "chat_entry list"
  arg_temperature :: real
  arg_max_tokens :: int
  arg_tools :: "tool_signature list option"

text \<open>The arguments of Gemini's \<^verbatim>\<open>generate_content\<close>.\<close>

record gemini_args =
  gem_model :: string
  gem_history :: "(string \<times> string option) list"
  gem_temperature :: real
  gem_max_output_tokens :: int

text \<open>
  One constructor per call that leaves the process. The graph writes name the
  transaction function they run.
\<close>

datatype event =
    OpenAI_create api_args
  | Gemini_generate gemini_args
  | Sqlite_get_summary string
  | Sqlite_update_summary string string nat
  | Sqlite_delete_session string
  | Redis_rpush string turn
  | Redis_lrange string int int
  | Redis_llen string
  | Redis_delete string
  | Redis_ltrim string int int
  | Chroma_add string "string option" string string
  | Chroma_query string nat "string option"
  | Chroma_delete string
  | Neo4j_create_message string string string "string option" "(string \<times> string) list"
  | Neo4j_related string string nat
  | Neo4j_delete_session_graph string
  | Plugin_execute string string "(string \<times> json) list"

fun is_model_call :: "event \<Rightarrow> bool" where
  "is_model_call (OpenAI_create a) = True"
| "is_model_call (Gemini_generate g) = True"
| "is_model_call e = False"

fun is_similarity_query :: "event \<Rightarrow> bool" where
  "is_similarity_query (Chroma_query q n s) = True"
| "is_similarity_query e = False"

fun is_graph_query :: "event \<Rightarrow> bool" where
  "is_graph_query (Neo4j_related n s l) = True"
| "is_graph_query e = False"

fun is_persist :: "event \<Rightarrow> bool" where
  "is_persist (Redis_rpush k t) = True"
| "is_persist (Chroma_add s d i r) = True"
| "is_persist (Neo4j_create_message s i r t es) = True"
| "is_persist (Sqlite_update_summary s t n) = True"
| "is_persist e = False"

text \<open>What the external calls do.\<close>

datatype api_outcome =
    ApiReturns message
  | ApiError string
  | ApiException string

datatype gemini_outcome =
    GeminiText string
  | GeminiException string

text \<open>
  A SQLite manager method either cannot connect (\<^verbatim>\<open>_get_connection\<close> logs and
  re-raises), or connects and fails while executing (\<^verbatim>\<open>sqlite3.Error\<close>, caught by the
  method), or succeeds.
\<close>

datatype sqlite_outcome = SqlOk | SqlConnectError | SqlExecError

text \<open>
  \<^verbatim>\<open>collection.query\<close>: raises, or returns a result whose \<^verbatim>\<open>documents\<close> entry is
  absent or a list of lists of documents.
\<close>

datatype query_outcome =
    QueryRaises
  | QueryReturns "string list list option"

datatype provider_class = OpenAIProvider | GeminiProvider

fun get_provider_name :: "provider_class \<Rightarrow> string" where
  "get_provider_name OpenAIProvider = ''openai''"
| "get_provider_name GeminiProvider = ''gemini''"

text \<open>A provider instance: its class and the model it was built for.\<close>

datatype provider = Provider (provider_cls: provider_class) (provider_model: string)

record env =
  providers :: "provider_class list"
  instantiates :: "provider_class \<Rightarrow> string \<Rightarrow> bool"
  openai_create :: "api_args \<Rightarrow> api_outcome"
  gemini_generate :: "gemini_args \<Rightarrow> gemini_outcome"
  json_loads :: "string \<Rightarrow> json option"
  json_dumps :: "json \<Rightarrow> string"
  analyze_user_input :: "string \<Rightarrow> (string \<times> string) list"
  plugins :: "(string \<times> tool_signature list) list"
  plugin_execute :: "string \<Rightarrow> string \<Rightarrow> (string \<times> json) list \<Rightarrow> string + json"
  sqlite_outcome :: "event \<Rightarrow> sqlite_outcome"
  redis_client :: bool
  redis_error :: "event \<Rightarrow> bool"
  chroma_collection :: bool
  chroma_raises :: "event \<Rightarrow> bool"
  chroma_query :: "event \<Rightarrow> query_outcome"
  neo4j_manager :: bool
  neo4j_driver :: bool
  neo4j_raises :: "event \<Rightarrow> bool"
  neo4j_related :: "event \<Rightarrow> string list"

text \<open>
  \<^item> \<open>providers\<close>: the classes \<^verbatim>\<open>_discover_providers\<close> registered, each under its
    \<^verbatim>\<open>get_provider_name()\<close>.
  \<^item> \<open>instantiates c m\<close>: whether \<^verbatim>\<open>c(model=m)\<close> constructs (the OpenAI class raises
    without a client, the Gemini class without an API key).
  \<^item> \<open>json_loads s = None\<close>: \<^verbatim>\<open>json.loads(s)\<close> raises \<^verbatim>\<open>JSONDecodeError\<close>.
  \<^item> \<open>analyze_user_input\<close>: the directives of the personality engine, whose classifiers are
    external models.
  \<^item> \<open>plugins\<close>: the registry \<^verbatim>\<open>PluginManager.plugins\<close>, each plugin with the tools its
    \<^verbatim>\<open>get_tools()\<close> lists; \<open>plugin_execute p t kw = Inl e\<close> when \<^verbatim>\<open>plugin.execute\<close>
    raises \<open>e\<close>.
  \<^item> \<open>redis_client\<close>, \<open>chroma_collection\<close>, \<open>neo4j_manager\<close>, \<open>neo4j_driver\<close>: whether
    the attribute of that name is set (not \<^verbatim>\<open>None\<close>).
  \<^item> \<open>redis_error e\<close>: the Redis call \<open>e\<close> raises a \<^verbatim>\<open>RedisError\<close>;
    \<open>chroma_raises\<close>, \<open>neo4j_raises\<close>: the call raises an exception.
\<close>

section \<open>State\<close>

record llm_config =
  provider_name :: string
  model_name :: string
  temperature :: real
  max_tokens :: int

text \<open>An entry of the similarity index: id, document, and the metadata's session and role.\<close>

datatype chroma_entry =
  ChromaEntry (doc_id: string) (doc_text: "string option")
    (doc_session: string) (doc_role: string)

record world =
  config :: llm_config
  sessions_tbl :: "string \<Rightarrow> (string \<times> nat) option"
  session_info_tbl :: "string \<Rightarrow> string option"
  redis_lists :: "string \<Rightarrow> turn list"
  chroma_docs :: "chroma_entry list"
  graph_writes :: "event list"
  trace :: "event list"

text \<open>
  \<^item> \<open>sessions_tbl\<close>: the table \<^verbatim>\<open>sessions\<close> (summary and turn count by session id);
    \<open>session_info_tbl\<close>: the table \<^verbatim>\<open>session_info\<close> (name by session id).
  \<^item> \<open>redis_lists\<close>: the list stored under each Redis key (a missing key is the empty list);
    an element is the turn that \<^verbatim>\<open>json.loads\<close> gives back from what \<^verbatim>\<open>json.dumps\<close>
    stored.
  \<^item> \<open>graph_writes\<close>: the write transactions committed to Neo4j, in order.
\<close>

definition log_call :: "event \<Rightarrow> world \<Rightarrow> world" where
  "log_call e w = w\<lparr>trace := trace w @ [e]\<rparr>"

section \<open>RedisManager (memory/redis_manager.py)\<close>

definition get_session_key :: "string \<Rightarrow> string" where
  "get_session_key session_id = ''session:'' @ session_id @ '':short_term_memory''"

text \<open>
  The elements that Redis's \<^verbatim>\<open>LRANGE key start stop\<close> returns and \<^verbatim>\<open>LTRIM\<close> keeps:
  both ends inclusive, a negative index counts from the end, indices beyond the list are
  clipped.
\<close>

definition redis_range :: "'a list \<Rightarrow> int \<Rightarrow> int \<Rightarrow> 'a list" where
  "redis_range xs start stop =
     (let n = int (length xs);
          s = (if start < 0 then max 0 (n + start) else start);
          e = (if stop < 0 then n + stop else min stop (n - 1))
      in if e < s \<or> n \<le> s then [] else take (nat (e - s + 1)) (drop (nat s) xs))"

definition add_turn :: "env \<Rightarrow> string \<Rightarrow> turn \<Rightarrow> world \<Rightarrow> world" where
  "add_turn env session_id turn_data w =
     (if \<not> redis_client env then w
      else
        let session_key = get_session_key session_id;
            call = Redis_rpush session_key turn_data;
            w' = log_call call w
        in if redis_error env call then w'
           else w'\<lparr>redis_lists :=
                  (redis_lists w')(session_key := redis_lists w' session_key @ [turn_data])\<rparr>)"

definition get_recent_turns :: "env \<Rightarrow> string \<Rightarrow> int \<Rightarrow> world \<Rightarrow> turn list \<times> world" where
  "get_recent_turns env session_id num_turns w =
     (if \<not> redis_client env then ([], w)
      else
        let session_key = get_session_key session_id;
            call = Redis_lrange session_key (- num_turns) (- 1);
            w' = log_call call w
        in if redis_error env call then ([], w')
           else (redis_range (redis_lists w' session_key) (- num_turns) (- 1), w'))"

definition delete_session_history :: "env \<Rightarrow> string \<Rightarrow> world \<Rightarrow> world" where
  "delete_session_history env session_id w =
     (if \<not> redis_client env then w
      else
        let session_key = get_session_key session_id;
            call = Redis_delete session_key;
            w' = log_call call w
        in if redis_error env call then w'
           else w'\<lparr>redis_lists := (redis_lists w')(session_key := [])\<rparr>)"

definition trim_history :: "env \<Rightarrow> string \<Rightarrow> int \<Rightarrow> world \<Rightarrow> world" where
  "trim_history env session_id max_len w =
     (if \<not> redis_client env then w
      else
        let session_key = get_session_key session_id;
            call = Redis_ltrim session_key (- max_len) (- 1);
            w' = log_call call w
        in if redis_error env call then w'
           else w'\<lparr>redis_lists :=
                  (redis_lists w')(session_key :=
                     redis_range (redis_lists w' session_key) (- max_len) (- 1))\<rparr>)"

text \<open>
  \<^verbatim>\<open>redis_manager.client.llen(key)\<close>, which the orchestrator calls on the client itself:
  nothing catches a missing client or a Redis error here.
\<close>

definition client_llen :: "env \<Rightarrow> string \<Rightarrow> world \<Rightarrow> (exn + nat) \<times> world" where
  "client_llen env session_key w =
     (if \<not> redis_client env then (Inl AttributeError, w)
      else
        let call = Redis_llen session_key;
            w' = log_call call w
        in if redis_error env call then (Inl RedisError, w')
           else (Inr (length (redis_lists w' session_key)), w'))"

section \<open>SQLiteManager (memory/sqlite_manager.py)\<close>

definition update_summary ::
  "env \<Rightarrow> string \<Rightarrow> string \<Rightarrow> nat \<Rightarrow> world \<Rightarrow> (exn + unit) \<times> world" where
  "update_summary env session_id summary turn_count w =
     (let call = Sqlite_update_summary session_id summary turn_count;
          w' = log_call call w
      in case sqlite_outcome env call of
           SqlConnectError \<Rightarrow> (Inl SqliteError, w')
         | SqlExecError \<Rightarrow> (Inr (), w')
         | SqlOk \<Rightarrow>
             (Inr (), w'\<lparr>sessions_tbl :=
                          (sessions_tbl w')(session_id := Some (summary, turn_count))\<rparr>))"

definition get_summary ::
  "env \<Rightarrow> string \<Rightarrow> world \<Rightarrow> (exn + (string \<times> nat) option) \<times> world" where
  "get_summary env session_id w =
     (let call = Sqlite_get_summary session_id;
          w' = log_call call w
      in case sqlite_outcome env call of
           SqlConnectError \<Rightarrow> (Inl SqliteError, w')
         | SqlExecError \<Rightarrow> (Inr None, w')
         | SqlOk \<Rightarrow> (Inr (sessions_tbl w' session_id), w'))"

text \<open>
  Both \<^verbatim>\<open>DELETE\<close> statements run in one transaction (\<^verbatim>\<open>with conn:\<close>), which is rolled
  back when one of them fails.
\<close>

definition delete_session :: "env \<Rightarrow> string \<Rightarrow> world \<Rightarrow> (exn + bool) \<times> world" where
  "delete_session env session_id w =
     (let call = Sqlite_delete_session session_id;
          w' = log_call call w
      in case sqlite_outcome env call of
           SqlConnectError \<Rightarrow> (Inl SqliteError, w')
         | SqlExecError \<Rightarrow> (Inr False, w')
         | SqlOk \<Rightarrow>
             (Inr True, w'\<lparr>session_info_tbl := (session_info_tbl w')(session_id := None),
                            sessions_tbl := (sessions_tbl w')(session_id := None)\<rparr>))"

section \<open>ChromaManager (memory/chroma_manager.py)\<close>

definition add_entry ::
  "env \<Rightarrow> string \<Rightarrow> string option \<Rightarrow> string \<Rightarrow> string \<Rightarrow> world \<Rightarrow> world" where
  "add_entry env session_id text_content turn_id role w =
     (if \<not> chroma_collection env then w
      else
        let call = Chroma_add session_id text_content turn_id role;
            w' = log_call call w
        in if chroma_raises env call then w'
           else w'\<lparr>chroma_docs :=
                  chroma_docs w' @ [ChromaEntry turn_id text_content session_id role]\<rparr>)"

text \<open>
  \<^verbatim>\<open>search_similar\<close> returns the query's result, or \<^verbatim>\<open>[]\<close> (here \<open>None\<close>) without a
  collection or when the \<^verbatim>\<open>try\<close> block raises. The block also evaluates
  \<^verbatim>\<open>len(results.get('documents', [[]])[0])\<close> for its debug message, which raises
  \<^verbatim>\<open>IndexError\<close> when \<^verbatim>\<open>documents\<close> is the empty list. The returned value is the
  result's \<^verbatim>\<open>documents\<close> entry, \<open>None\<close> when the result has none.
\<close>

definition search_similar ::
  "env \<Rightarrow> string \<Rightarrow> nat \<Rightarrow> string \<Rightarrow> world \<Rightarrow> string list list option option \<times> world" where
  "search_similar env query_text n_results filter_by_session w =
     (if \<not> chroma_collection env then (None, w)
      else
        let call = Chroma_query query_text n_results
                     (if filter_by_session \<noteq> [] then Some filter_by_session else None);
            w' = log_call call w
        in case chroma_query env call of
             QueryRaises \<Rightarrow> (None, w')
           | QueryReturns None \<Rightarrow> (Some None, w')
           | QueryReturns (Some []) \<Rightarrow> (None, w')
           | QueryReturns (Some (d # ds)) \<Rightarrow> (Some (Some (d # ds)), w'))"

definition delete_session_entries :: "env \<Rightarrow> string \<Rightarrow> world \<Rightarrow> world" where
  "delete_session_entries env session_id w =
     (if \<not> chroma_collection env then w
      else
        let call = Chroma_delete session_id;
            w' = log_call call w
        in if chroma_raises env call then w'
           else w'\<lparr>chroma_docs :=
                  filter (\<lambda>d. doc_session d \<noteq> session_id) (chroma_docs w')\<rparr>)"

section \<open>Neo4jManager (memory/neo4j_manager.py)\<close>

text \<open>
  The methods below are those of a constructed manager; their callers test
  \<^verbatim>\<open>if self.neo4j_manager\<close> first. The Cypher text is not interpreted: a write that
  commits is appended to \<open>graph_writes\<close>, and what a read returns is \<open>neo4j_related\<close>.
\<close>

definition add_message_and_entities ::
  "env \<Rightarrow> string \<Rightarrow> string \<Rightarrow> string \<Rightarrow> string option \<Rightarrow> (string \<times> string) list
     \<Rightarrow> world \<Rightarrow> world" where
  "add_message_and_entities env session_id turn_id role txt entities w =
     (if \<not> neo4j_driver env then w
      else
        let call = Neo4j_create_message session_id turn_id role txt entities;
            w' = log_call call w
        in if neo4j_raises env call then w'
           else w'\<lparr>graph_writes := graph_writes w' @ [call]\<rparr>)"

definition get_related_entities ::
  "env \<Rightarrow> string \<Rightarrow> string \<Rightarrow> nat \<Rightarrow> world \<Rightarrow> string list \<times> world" where
  "get_related_entities env entity_name session_id limit w =
     (if \<not> neo4j_driver env then ([], w)
      else
        let call = Neo4j_related entity_name session_id limit;
            w' = log_call call w
        in if neo4j_raises env call then ([], w')
           else (neo4j_related env call, w'))"

definition delete_session_graph :: "env \<Rightarrow> string \<Rightarrow> world \<Rightarrow> world" where
  "delete_session_graph env session_id w =
     (if \<not> neo4j_driver env then w
      else
        let call = Neo4j_delete_session_graph session_id;
            w' = log_call call w
        in if neo4j_raises env call then w'
           else w'\<lparr>graph_writes := graph_writes w' @ [call]\<rparr>)"

section \<open>Providers (providers/api_manager.py, openai_provider.py, gemini_provider.py)\<close>

text \<open>
  \<^verbatim>\<open>ApiManager.get_provider(provider_name, model=model)\<close>. The manager also caches the
  instance under \<^verbatim>\<open>(provider_name, model)\<close>; the cached instance is the value built here.
\<close>

definition get_provider :: "env \<Rightarrow> string \<Rightarrow> string \<Rightarrow> provider option" where
  "get_provider env name model =
     (case find (\<lambda>c. get_provider_name c = name) (providers env) of
        None \<Rightarrow> None
      | Some provider_class \<Rightarrow>
          if instantiates env provider_class model then Some (Provider provider_class model)
          else None)"

text \<open>
  \<^verbatim>\<open>OpenAIProvider.generate_response\<close>. \<^verbatim>\<open>messages = history\<close> aliases the caller's
  list, so the appended prompt is seen by the caller: the function returns the list too.
  An \<^verbatim>\<open>openai.APIError\<close> and any other exception become a message that carries the
  error text.
\<close>

definition openai_generate_response ::
  "env \<Rightarrow> string \<Rightarrow> string option \<Rightarrow> chat_entry list \<Rightarrow> tool_signature list
     \<Rightarrow> real option \<Rightarrow> int option \<Rightarrow> world \<Rightarrow> (response \<times> chat_entry list) \<times> world" where
  "openai_generate_response env model prompt history tools temp max_tok w =
     (let messages =
            (case prompt of
               None \<Rightarrow> history
             | Some p \<Rightarrow> if p = [] then history else history @ [RoleContent ''user'' (Some p)]);
          args = \<lparr>arg_model = model,
                   arg_messages = messages,
                   arg_temperature = (case temp of None \<Rightarrow> 7 / 10 | Some t \<Rightarrow> t),
                   arg_max_tokens = (case max_tok of None \<Rightarrow> 1500 | Some n \<Rightarrow> n),
                   arg_tools = (if tools = [] then None else Some tools)\<rparr>;
          w' = log_call (OpenAI_create args) w
      in case openai_create env args of
           ApiReturns m \<Rightarrow> ((MessageObject m, messages), w')
         | ApiError e \<Rightarrow>
             ((MessageObject (Message ''assistant'' (Some (''Error de OpenAI: '' @ e)) None),
               messages), w')
         | ApiException e \<Rightarrow>
             ((MessageObject (Message ''assistant'' (Some (''Error inesperado: '' @ e)) None),
               messages), w'))"

text \<open>
  \<^verbatim>\<open>GeminiProvider.generate_response\<close>: builds its own history (the caller's list is
  untouched), ignores the tools, and returns a dictionary.
\<close>

definition gemini_generate_response ::
  "env \<Rightarrow> string \<Rightarrow> string option \<Rightarrow> chat_entry list \<Rightarrow> tool_signature list
     \<Rightarrow> real option \<Rightarrow> int option \<Rightarrow> world \<Rightarrow> (response \<times> chat_entry list) \<times> world" where
  "gemini_generate_response env model prompt history tools temp max_tok w =
     (let gemini_history =
            map (\<lambda>msg. (if entry_role msg = ''system'' \<or> entry_role msg = ''user''
                         then ''user'' else ''model'', entry_content msg)) history
            @ [(''user'', prompt)];
          args = \<lparr>gem_model = model,
                   gem_history = gemini_history,
                   gem_temperature = (case temp of None \<Rightarrow> 7 / 10 | Some t \<Rightarrow> t),
                   gem_max_output_tokens = (case max_tok of None \<Rightarrow> 800 | Some n \<Rightarrow> n)\<rparr>;
          w' = log_call (Gemini_generate args) w
      in case gemini_generate env args of
           GeminiText t \<Rightarrow> ((DictResponse ''assistant'' t, history), w')
         | GeminiException e \<Rightarrow>
             ((DictResponse ''assistant'' (''Error de Gemini: '' @ e), history), w'))"

definition generate_response ::
  "env \<Rightarrow> provider \<Rightarrow> string option \<Rightarrow> chat_entry list \<Rightarrow> tool_signature list
     \<Rightarrow> real option \<Rightarrow> int option \<Rightarrow> world \<Rightarrow> (response \<times> chat_entry list) \<times> world" where
  "generate_response env p prompt history tools temp max_tok w =
     (case provider_cls p of
        OpenAIProvider \<Rightarrow>
          openai_generate_response env (provider_model p) prompt history tools temp max_tok w
      | GeminiProvider \<Rightarrow>
          gemini_generate_response env (provider_model p) prompt history tools temp max_tok w)"

text \<open>
  The attribute reads \<^verbatim>\<open>response.content\<close> and \<^verbatim>\<open>response.tool_calls\<close>: a dictionary
  has neither attribute.
\<close>

fun response_content :: "response \<Rightarrow> exn + string option" where
  "response_content (MessageObject m) = Inr (msg_content m)"
| "response_content (DictResponse r c) = Inl AttributeError"

fun response_tool_calls :: "response \<Rightarrow> exn + tool_call list option" where
  "response_tool_calls (MessageObject m) = Inr (msg_tool_calls m)"
| "response_tool_calls (DictResponse r c) = Inl AttributeError"

text \<open>\<^verbatim>\<open>response.content.strip()\<close>: \<^verbatim>\<open>None\<close> has no \<^verbatim>\<open>strip\<close>.\<close>

definition content_strip :: "response \<Rightarrow> exn + string" where
  "content_strip r =
     (case response_content r of
        Inl e \<Rightarrow> Inl e
      | Inr None \<Rightarrow> Inl AttributeError
      | Inr (Some c) \<Rightarrow> Inr (strip c))"

section \<open>ContextEngine: entity extraction and context synthesis\<close>

definition extraction_prompt :: "string option \<Rightarrow> string" where
  "extraction_prompt user_prompt =
     nl @ ''        Analiza el siguiente texto y extrae los conceptos y entidades m''
     @ a_acute @ ''s importantes.''
     @ nl @ ''        Enf'' @ o_acute @ ''cate en la intenci'' @ o_acute
     @ ''n principal de la pregunta.''
     @ nl @ ''        Devuelve el resultado como una lista JSON de strings.''
     @ nl @ ''        Por ejemplo, para '' @ dq
     @ ''Que campos de la Inteligencia artifical quedan por explorar?'' @ dq
     @ '', una buena extracci'' @ o_acute @ ''n ser'' @ i_acute @ ''a [''
     @ dq @ ''campos'' @ dq @ '', '' @ dq @ ''explorar'' @ dq @ '', ''
     @ dq @ ''inteligencia artificial'' @ dq @ ''].''
     @ nl @ ''        Si no encuentras ninguna entidad relevante, devuelve una lista JSON vac''
     @ i_acute @ ''a: [].''
     @ nl @ ''        Texto: '' @ dq @ py_str user_prompt @ dq
     @ nl @ ''        Entidades (SOLO el JSON):''
     @ nl @ ''        ''"

text \<open>
  Lines 68 to 78: the checks on the stripped response text. \<open>Inl\<close> is the
  \<^verbatim>\<open>JSONDecodeError\<close> of \<^verbatim>\<open>json.loads\<close>.
\<close>

definition parse_entities :: "env \<Rightarrow> string \<Rightarrow> exn + string list" where
  "parse_entities env entities_json =
     (if entities_json = [] \<or> \<not> startswith entities_json (CHR ''['') then Inr []
      else
        (case json_loads env entities_json of
           None \<Rightarrow> Inl JSONDecodeError
         | Some (JArr es) \<Rightarrow> if list_all is_str es then Inr (map str_of es) else Inr []
         | Some other \<Rightarrow> Inr []))"

text \<open>
  The \<^verbatim>\<open>try\<close> block of \<^verbatim>\<open>_extract_entities_with_gpt\<close> (lines 62 to 78); \<open>Inl\<close> is an
  exception raised inside it.
\<close>

definition extract_entities_try ::
  "env \<Rightarrow> provider \<Rightarrow> string option \<Rightarrow> world \<Rightarrow> (exn + string list) \<times> world" where
  "extract_entities_try env p user_prompt w =
     (case generate_response env p (Some (extraction_prompt user_prompt)) [] [] None None w of
        ((response, h), w') \<Rightarrow>
          (case content_strip response of
             Inl e \<Rightarrow> (Inl e, w')
           | Inr entities_json \<Rightarrow> (parse_entities env entities_json, w')))"

text \<open>
  \<^verbatim>\<open>_extract_entities_with_gpt\<close>: without a provider the result is \<^verbatim>\<open>[]\<close>; both
  \<^verbatim>\<open>except\<close> clauses (\<^verbatim>\<open>json.JSONDecodeError\<close> and \<^verbatim>\<open>Exception\<close>) return \<^verbatim>\<open>[]\<close>.
  The text is \<open>None\<close> when \<^verbatim>\<open>save_turn\<close> passes a final answer without content.
\<close>

definition extract_entities_with_gpt ::
  "env \<Rightarrow> string option \<Rightarrow> world \<Rightarrow> string list \<times> world" where
  "extract_entities_with_gpt env user_prompt w =
     (case get_provider env ''openai'' ''gpt-3.5-turbo'' of
        None \<Rightarrow> ([], w)
      | Some p \<Rightarrow>
          (case extract_entities_try env p user_prompt w of
             (Inl e, w') \<Rightarrow> ([], w')
           | (Inr entities, w') \<Rightarrow> (entities, w')))"

definition synthesis_prompt :: "string \<Rightarrow> string" where
  "synthesis_prompt text_to_summarize =
     nl @ ''        Resume los siguientes fragmentos de informaci'' @ o_acute
     @ ''n en un p'' @ a_acute @ ''rrafo conciso y coherente. ''
     @ nl @ ''        Este resumen se usar'' @ a_acute
     @ '' como contexto para un asistente de IA.''
     @ nl @ ''        Fragmentos:''
     @ nl @ ''        '' @ text_to_summarize
     @ nl @ ''        Resumen:''
     @ nl @ ''        ''"

definition synthesize_context_with_gpt ::
  "env \<Rightarrow> string list \<Rightarrow> world \<Rightarrow> string \<times> world" where
  "synthesize_context_with_gpt env combined_snippets w =
     (if combined_snippets = [] then ([], w)
      else
        let text_to_summarize = join nl combined_snippets
        in case get_provider env ''openai'' ''gpt-3.5-turbo'' of
             None \<Rightarrow> ([], w)
           | Some p \<Rightarrow>
               (case generate_response env p (Some (synthesis_prompt text_to_summarize)) [] []
                       (Some (3 / 10)) (Some 300) w of
                  ((response, h), w') \<Rightarrow>
                    (case content_strip response of
                       Inl e \<Rightarrow> ([], w')
                     | Inr synthesized_context \<Rightarrow> (synthesized_context, w'))))"

section \<open>ContextEngine.build_augmented_prompt\<close>

text \<open>The body of the ChromaDB loop (lines 136 to 145) for one entity.\<close>

definition search_query :: "string \<Rightarrow> string" where
  "search_query entity_name =
     inv_question @ ''Qu'' @ e_acute @ '' informaci'' @ o_acute
     @ ''n relevante hay sobre '' @ entity_name @ ''?''"

definition chroma_step ::
  "env \<Rightarrow> string \<Rightarrow> string list \<times> world \<Rightarrow> string \<Rightarrow> string list \<times> world" where
  "chroma_step env session_id acc entity_name =
     (case acc of
        (snippets, w) \<Rightarrow>
          (case search_similar env (search_query entity_name) 5 session_id w of
             (None, w') \<Rightarrow> (snippets, w')
           | (Some None, w') \<Rightarrow> (snippets, w')
           | (Some (Some []), w') \<Rightarrow> (snippets, w')
           | (Some (Some (chroma_results # rest)), w') \<Rightarrow>
               if chroma_results = [] then (snippets, w')
               else (snippets @ map truncate_doc chroma_results, w')))"

text \<open>The body of the Neo4j loop (lines 151 to 154) for one entity.\<close>

definition structural_info :: "string \<Rightarrow> string list \<Rightarrow> string" where
  "structural_info entity_name related_concepts =
     ''Sobre el concepto '' @ sq @ entity_name @ sq
     @ '', el sistema tambi'' @ e_acute @ ''n conoce estos temas relacionados: ''
     @ join '', '' related_concepts @ ''.''"

definition neo4j_step ::
  "env \<Rightarrow> string \<Rightarrow> string list \<times> world \<Rightarrow> string \<Rightarrow> string list \<times> world" where
  "neo4j_step env session_id acc entity_name =
     (case acc of
        (structural_info_parts, w) \<Rightarrow>
          (case get_related_entities env entity_name session_id 5 w of
             (related_concepts, w') \<Rightarrow>
               if related_concepts = [] then (structural_info_parts, w')
               else
                 (structural_info_parts @ [structural_info entity_name related_concepts],
                  w')))"

text \<open>
  Lines 117 to 161: the entity names and the list \<^verbatim>\<open>relevant_context_snippets\<close> as it
  stands before the deduplication of line 164.
\<close>

definition collect_context_snippets ::
  "env \<Rightarrow> string \<Rightarrow> string \<Rightarrow> world \<Rightarrow> (exn + string list \<times> string list) \<times> world" where
  "collect_context_snippets env session_id user_prompt w =
     (case get_summary env session_id w of
        (Inl e, w1) \<Rightarrow> (Inl e, w1)
      | (Inr summary, w1) \<Rightarrow>
          let snippets0 =
                (case summary of
                   None \<Rightarrow> []
                 | Some (summary_text, n) \<Rightarrow> if summary_text = [] then [] else [summary_text])
          in case extract_entities_with_gpt env (Some user_prompt) w1 of
               (entity_names, w2) \<Rightarrow>
                 if entity_names = [] then (Inr (entity_names, snippets0), w2)
                 else
                   (case foldl (chroma_step env session_id) (snippets0, w2) entity_names of
                      (snippets1, w3) \<Rightarrow>
                        if \<not> neo4j_manager env then (Inr (entity_names, snippets1), w3)
                        else
                          (case foldl (neo4j_step env session_id) ([], w3) entity_names of
                             (structural_info_parts, w4) \<Rightarrow>
                               if structural_info_parts = []
                               then (Inr (entity_names, snippets1), w4)
                               else
                                 (Inr (entity_names,
                                       snippets1 @ [join '' '' structural_info_parts]), w4))))"

definition translate_directives_to_prompt :: "(string \<times> string) list \<Rightarrow> string" where
  "translate_directives_to_prompt directives =
     (let intent = dict_get directives ''intent''
      in if intent = Some (''pregunta conceptual o t'' @ e_acute @ ''cnica'')
         then ''El usuario ha hecho una pregunta t'' @ e_acute @ ''cnica. S'' @ e_acute
              @ '' preciso y detallado en tu respuesta.''
         else if intent = Some (''broma o comentario humor'' @ i_acute @ ''stico'')
         then ''El usuario est'' @ a_acute
              @ '' de humor para bromas. Responde de una manera ligera y divertida.''
         else [])"

definition get_all_tools :: "env \<Rightarrow> tool_signature list" where
  "get_all_tools env = concat (map snd (plugins env))"

record augmented_context =
  ctx_system_prompt :: string
  ctx_history :: "turn list"
  ctx_tools :: "tool_signature list"
  ctx_entities :: "string list"

definition build_augmented_prompt ::
  "env \<Rightarrow> string \<Rightarrow> string \<Rightarrow> (string \<times> string) list \<Rightarrow> world
     \<Rightarrow> (exn + augmented_context) \<times> world" where
  "build_augmented_prompt env session_id user_prompt personality_directives w =
     (case collect_context_snippets env session_id user_prompt w of
        (Inl e, w1) \<Rightarrow> (Inl e, w1)
      | (Inr (entity_names, relevant_context_snippets), w1) \<Rightarrow>
          let uniq = unique_snippets relevant_context_snippets
          in case (if uniq = [] then ([], w1) else synthesize_context_with_gpt env uniq w1) of
               (synthesized_context, w2) \<Rightarrow>
                 let final_context =
                       (if synthesized_context = [] then []
                        else ''--- CONTEXTO DE MEMORIA A LARGO-MEDIO PLAZO ---'' @ nl
                             @ synthesized_context);
                     personality_instruction =
                       translate_directives_to_prompt personality_directives;
                     tools = get_all_tools env
                 in case get_recent_turns env session_id 10 w2 of
                      (conversational_history, w3) \<Rightarrow>
                        let system_prompt_parts =
                              [''Eres Quimera, un asistente de IA avanzado.'',
                               personality_instruction,
                               final_context,
                               ''Responde de manera '' @ u_acute @ ''til y coherente...''];
                            final_system_prompt =
                              join nl (filter (\<lambda>part. part \<noteq> []) system_prompt_parts)
                        in (Inr \<lparr>ctx_system_prompt = final_system_prompt,
                                   ctx_history = conversational_history,
                                   ctx_tools = tools,
                                   ctx_entities = entity_names\<rparr>, w3))"

section \<open>ContextEngine.save_turn\<close>

definition misc_entities :: "string list \<Rightarrow> (string \<times> string) list" where
  "misc_entities es = map (\<lambda>entity. (entity, ''MISC'')) es"

definition save_turn ::
  "env \<Rightarrow> string \<Rightarrow> string \<Rightarrow> string option \<Rightarrow> string \<Rightarrow> string \<Rightarrow> string list
     \<Rightarrow> world \<Rightarrow> world" where
  "save_turn env session_id user_prompt assistant_response user_turn_id assistant_turn_id
     user_entities w =
     (let w1 = add_turn env session_id (Turn ''user'' (Some user_prompt)) w;
          w2 = add_turn env session_id (Turn ''assistant'' assistant_response) w1;
          w3 = add_entry env session_id assistant_response assistant_turn_id ''assistant'' w2
      in if \<not> neo4j_manager env then w3
         else
           (case extract_entities_with_gpt env assistant_response w3 of
              (assistant_entities, w4) \<Rightarrow>
                let w5 = add_message_and_entities env session_id user_turn_id ''user''
                           (Some user_prompt) (misc_entities user_entities) w4
                in add_message_and_entities env session_id assistant_turn_id ''assistant''
                     assistant_response (misc_entities assistant_entities) w5))"

section \<open>PluginManager (plugins/plugin_manager.py)\<close>

definition find_plugin_for_tool :: "env \<Rightarrow> string \<Rightarrow> string option" where
  "find_plugin_for_tool env name =
     (case find (\<lambda>plugin. list_ex (\<lambda>tool. tool_name tool = name) (snd plugin)) (plugins env) of
        None \<Rightarrow> None
      | Some plugin \<Rightarrow> Some (fst plugin))"

definition error_result :: "string \<Rightarrow> json" where
  "error_result msg = JObj [(''status'', JStr ''error''), (''error_message'', JStr msg)]"

definition execute_tool ::
  "env \<Rightarrow> string \<Rightarrow> string \<Rightarrow> (string \<times> json) list \<Rightarrow> world \<Rightarrow> json \<times> world" where
  "execute_tool env plugin_name tool kwargs w =
     (if plugin_name \<notin> set (map fst (plugins env))
      then (error_result (''Plugin '' @ sq @ plugin_name @ sq @ '' no encontrado.''), w)
      else
        let w' = log_call (Plugin_execute plugin_name tool kwargs) w
        in case plugin_execute env plugin_name tool kwargs of
             Inr result \<Rightarrow> (result, w')
           | Inl e \<Rightarrow>
               (error_result (''Error al ejecutar la herramienta '' @ sq @ tool @ sq
                  @ '' en el plugin '' @ sq @ plugin_name @ sq @ '': '' @ e), w'))"

section \<open>Orchestrator (orchestrator.py)\<close>

definition update_llm_settings ::
  "string option \<Rightarrow> string option \<Rightarrow> real option \<Rightarrow> int option \<Rightarrow> world \<Rightarrow> world" where
  "update_llm_settings pn mn temp mt w =
     (let c0 = config w;
          c1 = (case pn of None \<Rightarrow> c0 | Some v \<Rightarrow> c0\<lparr>provider_name := v\<rparr>);
          c2 = (case mn of None \<Rightarrow> c1 | Some v \<Rightarrow> c1\<lparr>model_name := v\<rparr>);
          c3 = (case temp of None \<Rightarrow> c2 | Some v \<Rightarrow> c2\<lparr>temperature := v\<rparr>);
          c4 = (case mt of None \<Rightarrow> c3 | Some v \<Rightarrow> c3\<lparr>max_tokens := v\<rparr>)
      in w\<lparr>config := c4\<rparr>)"

text \<open>
  The call \<^verbatim>\<open>execute_tool(plugin_name=..., tool_name=..., **arguments)\<close> of line 132:
  \<^verbatim>\<open>**arguments\<close> raises \<^verbatim>\<open>TypeError\<close> unless \<^verbatim>\<open>arguments\<close> is a mapping, and
  when one of its keys repeats a parameter that is already bound.
\<close>

definition call_execute_tool ::
  "env \<Rightarrow> string \<Rightarrow> string \<Rightarrow> json \<Rightarrow> world \<Rightarrow> (exn + json) \<times> world" where
  "call_execute_tool env plugin_name tool arguments w =
     (case arguments of
        JObj kwargs \<Rightarrow>
          if list_ex (\<lambda>k. k = ''self'' \<or> k = ''plugin_name'' \<or> k = ''tool_name'') (map fst kwargs)
          then (Inl TypeError, w)
          else (case execute_tool env plugin_name tool kwargs w of
                  (tool_result, w') \<Rightarrow> (Inr tool_result, w'))
      | other \<Rightarrow> (Inl TypeError, w))"

text \<open>
  The \<^verbatim>\<open>for tool_call in response_message.tool_calls\<close> loop (lines 117 to 139), on the
  history and the world; the first component is the exception that ended it, if any.
\<close>

fun run_tool_calls ::
  "env \<Rightarrow> tool_call list \<Rightarrow> chat_entry list \<Rightarrow> world
     \<Rightarrow> exn option \<times> chat_entry list \<times> world" where
  "run_tool_calls env [] api_history w = (None, api_history, w)"
| "run_tool_calls env (tool_call # rest) api_history w =
     (let function_name = tc_name tool_call;
          arguments = (case json_loads env (tc_arguments tool_call) of
                         None \<Rightarrow> JObj []
                       | Some a \<Rightarrow> a)
      in case find_plugin_for_tool env function_name of
           None \<Rightarrow> run_tool_calls env rest api_history w
         | Some plugin_name \<Rightarrow>
             (case call_execute_tool env plugin_name function_name arguments w of
                (Inl e, w') \<Rightarrow> (Some e, api_history, w')
              | (Inr tool_result, w') \<Rightarrow>
                  run_tool_calls env rest
                    (api_history @
                       [ToolMessage (tc_id tool_call) function_name (json_dumps env tool_result)])
                    w'))"

text \<open>
  The state of the \<^verbatim>\<open>while\<close> loop of line 113: the last response (\<open>None\<close> for Python's
  \<^verbatim>\<open>None\<close>), the history, the world, and the exception raised in the loop body, if any.
\<close>

record loop_state =
  ls_response :: "response option"
  ls_history :: "chat_entry list"
  ls_world :: world
  ls_raised :: "exn option"

text \<open>
  The test \<^verbatim>\<open>response_message and response_message.tool_calls\<close>: reading
  \<^verbatim>\<open>tool_calls\<close> from a dictionary raises.
\<close>

definition loop_test :: "response option \<Rightarrow> exn + bool" where
  "loop_test r =
     (case r of
        None \<Rightarrow> Inr False
      | Some resp \<Rightarrow>
          (case response_tool_calls resp of
             Inl e \<Rightarrow> Inl e
           | Inr None \<Rightarrow> Inr False
           | Inr (Some tcs) \<Rightarrow> Inr (tcs \<noteq> [])))"

definition loop_continues :: "loop_state \<Rightarrow> bool" where
  "loop_continues st = (ls_raised st = None \<and> loop_test (ls_response st) = Inr True)"

text \<open>One round of the loop body (lines 114 to 164).\<close>

definition tool_round ::
  "env \<Rightarrow> provider \<Rightarrow> tool_signature list \<Rightarrow> real \<Rightarrow> int \<Rightarrow> loop_state \<Rightarrow> loop_state" where
  "tool_round env llm_provider tools temp max_tok st =
     (case ls_response st of
        Some (MessageObject m) \<Rightarrow>
          (case msg_tool_calls m of
             Some tool_calls \<Rightarrow>
               (case run_tool_calls env tool_calls (ls_history st @ [MessageDump m])
                       (ls_world st) of
                  (Some e, h, w) \<Rightarrow> st\<lparr>ls_history := h, ls_world := w, ls_raised := Some e\<rparr>
                | (None, h, w) \<Rightarrow>
                    (case generate_response env llm_provider None h tools (Some temp)
                            (Some max_tok) w of
                       ((r, h'), w') \<Rightarrow>
                         st\<lparr>ls_response := Some r, ls_history := h', ls_world := w'\<rparr>))
           | None \<Rightarrow> st)
      | other \<Rightarrow> st)"

text \<open>
  The loop itself has no bound on its rounds: its result is \<open>None\<close> when the model asks
  for tools forever.
\<close>

partial_function (option) tool_call_loop ::
  "env \<Rightarrow> provider \<Rightarrow> tool_signature list \<Rightarrow> real \<Rightarrow> int \<Rightarrow> loop_state
     \<Rightarrow> loop_state option" where
  "tool_call_loop env llm_provider tools temp max_tok st =
     (if loop_continues st
      then tool_call_loop env llm_provider tools temp max_tok
             (tool_round env llm_provider tools temp max_tok st)
      else Some st)"

text \<open>
  What \<^verbatim>\<open>handle_user_request\<close> returns: \<^verbatim>\<open>{"error": msg}\<close> or
  \<^verbatim>\<open>{"response": final_response_text}\<close>; next to it, the sessions for which a
  summarisation task was added to \<^verbatim>\<open>background_tasks\<close>.
\<close>

datatype handler_result =
    ErrorResult string
  | ResponseResult "string option"

definition fallback_text :: string where
  "fallback_text = ''No se recibi'' @ o_acute @ '' respuesta del LLM.''"

text \<open>Lines 166 to 181, entered when the loop has ended in state \<open>st\<close>.\<close>

definition finish_request ::
  "env \<Rightarrow> string \<Rightarrow> string \<Rightarrow> string list \<Rightarrow> string \<Rightarrow> string \<Rightarrow> loop_state
     \<Rightarrow> (exn + handler_result \<times> string list) \<times> world" where
  "finish_request env session_id user_prompt entities uuid_user uuid_assistant st =
     (case ls_raised st of
        Some e \<Rightarrow> (Inl e, ls_world st)
      | None \<Rightarrow>
          (case loop_test (ls_response st) of
             Inl e \<Rightarrow> (Inl e, ls_world st)
           | Inr b \<Rightarrow>
               (case (case ls_response st of
                        None \<Rightarrow> Inr (Some fallback_text)
                      | Some r \<Rightarrow> response_content r) of
                  Inl e \<Rightarrow> (Inl e, ls_world st)
                | Inr final_response_text \<Rightarrow>
                    let user_turn_id = session_id @ ''_'' @ uuid_user;
                        assistant_turn_id = session_id @ ''_'' @ uuid_assistant;
                        w4 = save_turn env session_id user_prompt final_response_text
                               user_turn_id assistant_turn_id entities (ls_world st)
                    in case client_llen env (get_session_key session_id) w4 of
                         (Inl e, w5) \<Rightarrow> (Inl e, w5)
                       | (Inr turn_count, w5) \<Rightarrow>
                           (Inr (ResponseResult final_response_text,
                                 if turn_count > 10 then [session_id] else []), w5))))"

text \<open>
  \<^verbatim>\<open>handle_user_request\<close>. \<open>uuid_user\<close> and \<open>uuid_assistant\<close> are the two
  \<^verbatim>\<open>uuid.uuid4()\<close> draws of lines 169 and 170. The result is \<open>None\<close> when the tool-call
  loop does not end.
\<close>

definition handle_user_request ::
  "env \<Rightarrow> string \<Rightarrow> string \<Rightarrow> llm_config \<Rightarrow> string \<Rightarrow> string \<Rightarrow> world
     \<Rightarrow> ((exn + handler_result \<times> string list) \<times> world) option" where
  "handle_user_request env session_id user_prompt llm_settings uuid_user uuid_assistant w0 =
     (let w1 = update_llm_settings (Some (provider_name llm_settings))
                 (Some (model_name llm_settings)) (Some (temperature llm_settings))
                 (Some (max_tokens llm_settings)) w0;
          personality_directives = analyze_user_input env user_prompt
      in case build_augmented_prompt env session_id user_prompt personality_directives w1 of
           (Inl e, w2) \<Rightarrow> Some (Inl e, w2)
         | (Inr augmented_context, w2) \<Rightarrow>
             let api_history =
                   RoleContent ''system'' (Some (ctx_system_prompt augmented_context))
                   # map entry_of_turn (ctx_history augmented_context)
             in case get_provider env (provider_name (config w2)) (model_name (config w2)) of
                  None \<Rightarrow>
                    Some (Inr (ErrorResult (''Proveedor '' @ sq @ provider_name (config w2) @ sq
                                  @ '' no encontrado.''), []), w2)
                | Some llm_provider \<Rightarrow>
                    let temp = temperature (config w2);
                        max_tok = max_tokens (config w2)
                    in case generate_response env llm_provider (Some user_prompt) api_history
                              (ctx_tools augmented_context) (Some temp) (Some max_tok) w2 of
                         ((r, h), w3) \<Rightarrow>
                           (case tool_call_loop env llm_provider (ctx_tools augmented_context)
                                   temp max_tok
                                   \<lparr>ls_response = Some r, ls_history = h, ls_world = w3,
                                    ls_raised = None\<rparr> of
                              None \<Rightarrow> None
                            | Some st \<Rightarrow>
                                Some (finish_request env session_id user_prompt
                                        (ctx_entities augmented_context) uuid_user
                                        uuid_assistant st)))"

text \<open>\<^verbatim>\<open>_summarize_and_update_mid_term_memory\<close>, the background task.\<close>

definition summarization_prompt :: "string \<Rightarrow> string \<Rightarrow> string" where
  "summarization_prompt previous_summary_text conversation_text =
     previous_summary_text @ nl @ nl
     @ ''Bas'' @ a_acute @ ''ndote en el resumen anterior y el siguiente extracto de la ''
     @ ''conversaci'' @ o_acute @ ''n reciente, actualiza el resumen de forma concisa, ''
     @ ''capturando solo la informaci'' @ o_acute
     @ ''n o conclusiones clave en una o dos frases.''
     @ nl @ nl @ ''Conversaci'' @ o_acute @ ''n Reciente:'' @ nl
     @ conversation_text @ nl @ nl @ ''Resumen actualizado y conciso:''"

text \<open>The \<^verbatim>\<open>try\<close> block of lines 213 to 223.\<close>

definition summarize_try ::
  "env \<Rightarrow> provider \<Rightarrow> string \<Rightarrow> string \<Rightarrow> nat \<Rightarrow> world \<Rightarrow> (exn + unit) \<times> world" where
  "summarize_try env p session_id prompt n_all_turns w =
     (case generate_response env p (Some prompt) [] [] (Some (2 / 10)) (Some 250) w of
        ((summary_response, h), w1) \<Rightarrow>
          (case content_strip summary_response of
             Inl e \<Rightarrow> (Inl e, w1)
           | Inr summary_text \<Rightarrow>
               (case update_summary env session_id summary_text n_all_turns w1 of
                  (Inl e, w2) \<Rightarrow> (Inl e, w2)
                | (Inr u, w2) \<Rightarrow> (Inr (), trim_history env session_id 10 w2))))"

text \<open>Lines 198 to 205: the prompt, from the turns read and the stored summary.\<close>

definition mid_term_prompt :: "turn list \<Rightarrow> (string \<times> nat) option \<Rightarrow> string" where
  "mid_term_prompt all_turns previous_summary =
     (let num_turns_to_summarize = int (length all_turns) - 10;
          turns_to_summarize = take (nat num_turns_to_summarize) all_turns;
          conversation_text =
            join nl (map (\<lambda>t. turn_role t @ '': '' @ py_str (turn_content t))
                       turns_to_summarize);
          previous_summary_text =
            (case previous_summary of
               Some (s, n) \<Rightarrow> ''Resumen anterior: '' @ s
             | None \<Rightarrow> ''Este es el primer resumen de la conversaci'' @ o_acute @ ''n.'')
      in summarization_prompt previous_summary_text conversation_text)"

definition summarize_and_update_mid_term_memory ::
  "env \<Rightarrow> string \<Rightarrow> world \<Rightarrow> (exn + unit) \<times> world" where
  "summarize_and_update_mid_term_memory env session_id w =
     (case get_recent_turns env session_id 0 w of
        (all_turns, w1) \<Rightarrow>
          let num_turns_to_summarize = int (length all_turns) - 10
          in if num_turns_to_summarize \<le> 0 then (Inr (), w1)
             else
               (case get_summary env session_id w1 of
                  (Inl e, w2) \<Rightarrow> (Inl e, w2)
                | (Inr previous_summary, w2) \<Rightarrow>
                    (case get_provider env ''openai'' ''gpt-3.5-turbo'' of
                       None \<Rightarrow> (Inr (), w2)
                     | Some p \<Rightarrow>
                         (case summarize_try env p session_id
                                 (mid_term_prompt all_turns previous_summary)
                                 (length all_turns) w2 of
                            (Inl e, w3) \<Rightarrow> (Inr (), w3)
                          | (Inr u, w3) \<Rightarrow> (Inr (), w3)))))"

text \<open>
  \<^verbatim>\<open>delete_session_data\<close>: the value that \<^verbatim>\<open>sqlite_manager.delete_session\<close> returns
  is not read; any exception that reaches the \<^verbatim>\<open>except\<close> clause gives \<^verbatim>\<open>False\<close>.
\<close>

definition delete_session_data :: "env \<Rightarrow> string \<Rightarrow> world \<Rightarrow> bool \<times> world" where
  "delete_session_data env session_id w =
     (case delete_session env session_id w of
        (Inl e, w1) \<Rightarrow> (False, w1)
      | (Inr deleted, w1) \<Rightarrow>
          let w2 = delete_session_history env session_id w1;
              w3 = delete_session_entries env session_id w2;
              w4 = (if neo4j_manager env then delete_session_graph env session_id w3 else w3)
          in (True, w4))"

section \<open>Example environments and states\<close>

text \<open>
  An environment in which every backend works: both providers are registered, the model
  answers \<open>ok\<close> without tool calls, no document and no related entity is found.
\<close>

definition working_env :: env where
  "working_env =
     \<lparr>providers = [OpenAIProvider, GeminiProvider],
      instantiates = (\<lambda>c m. True),
      openai_create = (\<lambda>a. ApiReturns (Message ''assistant'' (Some ''ok'') None)),
      gemini_generate = (\<lambda>g. GeminiText ''ok''),
      json_loads = (\<lambda>s. None),
      json_dumps = (\<lambda>j. ''null''),
      analyze_user_input = (\<lambda>p. []),
      plugins = [],
      plugin_execute = (\<lambda>p t kw. Inr JNull),
      sqlite_outcome = (\<lambda>e. SqlOk),
      redis_client = True,
      redis_error = (\<lambda>e. False),
      chroma_collection = True,
      chroma_raises = (\<lambda>e. False),
      chroma_query = (\<lambda>e. QueryReturns None),
      neo4j_manager = True,
      neo4j_driver = True,
      neo4j_raises = (\<lambda>e. False),
      neo4j_related = (\<lambda>e. [])\<rparr>"

definition empty_world :: world where
  "empty_world =
     \<lparr>config = \<lparr>provider_name = ''openai'', model_name = ''gpt-4o-mini'',
                 temperature = 7 / 10, max_tokens = 1500\<rparr>,
      sessions_tbl = (\<lambda>s. None),
      session_info_tbl = (\<lambda>s. None),
      redis_lists = (\<lambda>k. []),
      chroma_docs = [],
      graph_writes = [],
      trace = []\<rparr>"

text \<open>The similarity index answers every query with one document of 400 characters.\<close>

definition long_doc_env :: env where
  "long_doc_env =
     working_env\<lparr>chroma_query := (\<lambda>e. QueryReturns (Some [[replicate 400 (CHR ''a'')]]))\<rparr>"

text \<open>The buffer of five-character turns used in the examples, and the environments
  in which one backend fails.\<close>

definition buffer_world :: "nat \<Rightarrow> world" where
  "buffer_world n =
     empty_world\<lparr>redis_lists :=
       (\<lambda>k. if k = get_session_key ''s1'' then replicate n (Turn ''user'' (Some ''hola''))
            else [])\<rparr>"

definition graph_down_env :: env where
  "graph_down_env = working_env\<lparr>neo4j_raises := (\<lambda>e. True)\<rparr>"

definition summary_write_fails_env :: env where
  "summary_write_fails_env =
     working_env\<lparr>sqlite_outcome :=
       (\<lambda>e. case e of Sqlite_update_summary s t n \<Rightarrow> SqlExecError | other \<Rightarrow> SqlOk)\<rparr>"

definition gemini_failing_env :: env where
  "gemini_failing_env = working_env\<lparr>gemini_generate := (\<lambda>g. GeminiException ''quota'')\<rparr>"

definition gemini_settings :: llm_config where
  "gemini_settings =
     \<lparr>provider_name = ''gemini'', model_name = ''gemini-pro'', temperature = 7 / 10,
      max_tokens = 1500\<rparr>"

definition openai_settings :: llm_config where
  "openai_settings =
     \<lparr>provider_name = ''openai'', model_name = ''gpt-4o-mini'', temperature = 7 / 10,
      max_tokens = 1500\<rparr>"

text \<open>
  A session whose buffer holds 14 turns (a run of the summariser at 12 turns had failed):
  the summariser runs, the next request appends its two turns, the summariser runs again.
\<close>

definition after_first_run :: world where
  "after_first_run =
     snd (summarize_and_update_mid_term_memory working_env ''s1'' (buffer_world 14))"

definition after_next_request :: world where
  "after_next_request =
     add_turn working_env ''s1'' (Turn ''assistant'' (Some ''ok''))
       (add_turn working_env ''s1'' (Turn ''user'' (Some ''hola'')) after_first_run)"

definition after_second_run :: world where
  "after_second_run =
     snd (summarize_and_update_mid_term_memory working_env ''s1'' after_next_request)"

text \<open>A state in which session \<open>s1\<close> has a stored summary.\<close>

definition summary_world :: world where
  "summary_world =
     empty_world\<lparr>sessions_tbl := (\<lambda>s. if s = ''s1'' then Some (''resumen'', 12) else None)\<rparr>"

text \<open>The Redis call \<^verbatim>\<open>LTRIM\<close> fails; every other call works.\<close>

definition trim_fails_env :: env where
  "trim_fails_env =
     working_env\<lparr>redis_error :=
       (\<lambda>e. case e of Redis_ltrim k a b \<Rightarrow> True | other \<Rightarrow> False)\<rparr>"

text \<open>
  The extraction model answers with the JSON array \<^verbatim>\<open>["ia"]\<close>, and the similarity
  index answers every query with one document of 400 characters.
\<close>

definition entity_env :: env where
  "entity_env =
     long_doc_env\<lparr>openai_create :=
                    (\<lambda>a. ApiReturns (Message ''assistant''
                                       (Some (''['' @ dq @ ''ia'' @ dq @ '']'')) None)),
                  json_loads := (\<lambda>s. Some (JArr [JStr ''ia'']))\<rparr>"

section \<open>Vocabulary of the statements\<close>

text \<open>The external calls issued between state \<open>w\<close> and a later state \<open>w'\<close>.\<close>

definition new_calls :: "world \<Rightarrow> world \<Rightarrow> event list" where
  "new_calls w w' = drop (length (trace w)) (trace w')"

text \<open>
  The request that an internal call sends to the OpenAI API: the model
  \<^verbatim>\<open>gpt-3.5-turbo\<close>, the prompt as the only message, no tools.
\<close>

definition internal_request :: "string \<Rightarrow> real \<Rightarrow> int \<Rightarrow> api_args" where
  "internal_request prompt temp max_tok =
     \<lparr>arg_model = ''gpt-3.5-turbo'',
      arg_messages = [RoleContent ''user'' (Some prompt)],
      arg_temperature = temp,
      arg_max_tokens = max_tok,
      arg_tools = None\<rparr>"

text \<open>
  Between \<open>w\<close> and \<open>w'\<close> the trace only grew, and every call added satisfies \<open>P\<close>.
\<close>

definition issues :: "(event \<Rightarrow> bool) \<Rightarrow> world \<Rightarrow> world \<Rightarrow> bool" where
  "issues P w w' =
     (take (length (trace w)) (trace w') = trace w \<and> list_all P (new_calls w w'))"

text \<open>The four stores hold in \<open>w'\<close> what they hold in \<open>w\<close>.\<close>

definition same_stores :: "world \<Rightarrow> world \<Rightarrow> bool" where
  "same_stores w w' =
     (sessions_tbl w' = sessions_tbl w \<and> session_info_tbl w' = session_info_tbl w
      \<and> redis_lists w' = redis_lists w \<and> chroma_docs w' = chroma_docs w
      \<and> graph_writes w' = graph_writes w)"

fun is_plugin_call :: "event \<Rightarrow> bool" where
  "is_plugin_call (Plugin_execute p t kw) = True"
| "is_plugin_call e = False"

text \<open>A call that is neither a similarity-index query nor a graph query.\<close>

definition not_long_term :: "event \<Rightarrow> bool" where
  "not_long_term e = (\<not> is_similarity_query e \<and> \<not> is_graph_query e)"

text \<open>
  What the similarity index returns for an entity, as \<^verbatim>\<open>build_augmented_prompt\<close>
  reads it: the first list of the result's \<^verbatim>\<open>documents\<close>, and no document when there
  is no collection, the query raises or the result has no document list.
\<close>

definition similarity_hits :: "env \<Rightarrow> string \<Rightarrow> string \<Rightarrow> string list" where
  "similarity_hits env session_id entity_name =
     (if \<not> chroma_collection env then []
      else
        (case chroma_query env
                (Chroma_query (search_query entity_name) 5
                   (if session_id \<noteq> [] then Some session_id else None)) of
           QueryReturns (Some (docs # rest)) \<Rightarrow> docs
         | other \<Rightarrow> []))"

text \<open>What the graph returns for an entity: nothing without a driver or when the query
  raises.\<close>

definition related_concepts_of :: "env \<Rightarrow> string \<Rightarrow> string \<Rightarrow> string list" where
  "related_concepts_of env session_id entity_name =
     (if \<not> neo4j_driver env \<or> neo4j_raises env (Neo4j_related entity_name session_id 5)
      then []
      else neo4j_related env (Neo4j_related entity_name session_id 5))"

text \<open>The sentences about the entities that have related concepts, one per entity.\<close>

definition graph_sentences :: "env \<Rightarrow> string \<Rightarrow> string list \<Rightarrow> string list" where
  "graph_sentences env session_id entity_names =
     concat (map (\<lambda>e. if related_concepts_of env session_id e = [] then []
                       else [structural_info e (related_concepts_of env session_id e)])
               entity_names)"

fun addressed_to_gpt35 :: "event \<Rightarrow> bool" where
  "addressed_to_gpt35 (OpenAI_create a) = (arg_model a = ''gpt-3.5-turbo'')"
| "addressed_to_gpt35 e = False"

text \<open>
  The entities that \<^verbatim>\<open>_extract_entities_with_gpt\<close> returns for a text; the result does
  not depend on the state in which the extraction runs.
\<close>

definition extracted_entities :: "env \<Rightarrow> string option \<Rightarrow> string list" where
  "extracted_entities env t = fst (extract_entities_with_gpt env t empty_world)"

text \<open>
  Between \<open>w\<close> and \<open>w'\<close> no persistence call was issued, and the four stores and the
  configuration are what they were.
\<close>

definition no_persistence :: "world \<Rightarrow> world \<Rightarrow> bool" where
  "no_persistence w w' =
     (issues (\<lambda>e. \<not> is_persist e) w w' \<and> same_stores w w' \<and> config w' = config w)"

chapter \<open>Properties\<close>

section \<open>Deduplication of the snippet list\<close>

lemma keys_setitem: "map fst (dict_setitem d k v) = key_insert (map fst d) k"
  by (induction d) (force simp: key_insert_def)+

lemma keys_foldl:
  "map fst (foldl (\<lambda>d k. dict_setitem d k v) d xs) = foldl key_insert (map fst d) xs"
  by (induction xs arbitrary: d) (simp_all add: keys_setitem)

lemma set_key_insert: "set (key_insert ks k) = insert k (set ks)"
  by (auto simp: key_insert_def)

lemma foldl_key_insert:
  "foldl key_insert acc xs =
     acc @ map (\<lambda>i. xs ! i)
       (filter (\<lambda>i. xs ! i \<notin> set acc \<and> xs ! i \<notin> set (take i xs)) [0..<length xs])"
proof (induction xs arbitrary: acc)
  case Nil
  then show ?case by simp
next
  case (Cons x xs)
  let ?P = "\<lambda>i. (x # xs) ! i \<notin> set acc \<and> (x # xs) ! i \<notin> set (take i (x # xs))"
  let ?Q = "\<lambda>i. xs ! i \<notin> set (key_insert acc x) \<and> xs ! i \<notin> set (take i xs)"
  have shift: "[0..<length (x # xs)] = 0 # map Suc [0..<length xs]"
    by (simp add: upt_conv_Cons map_Suc_upt del: upt_Suc)
  have tail: "filter ?P (map Suc [0..<length xs]) = map Suc (filter ?Q [0..<length xs])"
    by (auto simp add: filter_map comp_def set_key_insert intro!: filter_cong)
  have head: "filter ?P [0] = (if x \<in> set acc then [] else [0])"
    by simp
  have "foldl key_insert acc (x # xs) =
          key_insert acc x @ map (\<lambda>i. xs ! i) (filter ?Q [0..<length xs])"
    by (simp add: Cons.IH)
  also have "\<dots> =
      acc @ map (\<lambda>i. (x # xs) ! i) (filter ?P [0] @ filter ?P (map Suc [0..<length xs]))"
    unfolding tail head by (simp add: key_insert_def comp_def)
  also have "\<dots> = acc @ map (\<lambda>i. (x # xs) ! i) (filter ?P [0..<length (x # xs)])"
    unfolding shift by simp
  finally show ?case .
qed

lemma unique_snippets_fold: "unique_snippets xs = foldl key_insert [] xs"
  by (simp add: unique_snippets_def dict_keys_def dict_fromkeys_def keys_foldl)

lemma unique_snippets_index:
  "unique_snippets xs = map (\<lambda>i. xs ! i) (filter (first_occurrence xs) [0..<length xs])"
proof -
  have "first_occurrence xs = (\<lambda>i. xs ! i \<notin> set [] \<and> xs ! i \<notin> set (take i xs))"
    by (simp add: first_occurrence_def fun_eq_iff)
  then show ?thesis
    using foldl_key_insert[of "[]" xs] by (simp add: unique_snippets_fold)
qed

lemma distinct_foldl_key_insert: "distinct acc \<Longrightarrow> distinct (foldl key_insert acc xs)"
  by (induction xs arbitrary: acc) (simp_all add: key_insert_def)

lemma set_foldl_key_insert: "set (foldl key_insert acc xs) = set acc \<union> set xs"
  by (induction xs arbitrary: acc) (auto simp: set_key_insert)

lemma foldl_key_insert_distinct:
  "distinct (acc @ xs) \<Longrightarrow> foldl key_insert acc xs = acc @ xs"
  by (induction xs arbitrary: acc) (simp_all add: key_insert_def)

lemma unique_snippets_distinct: "distinct (unique_snippets xs)"
  by (simp add: unique_snippets_fold distinct_foldl_key_insert)

lemma unique_snippets_set: "set (unique_snippets xs) = set xs"
  by (simp add: unique_snippets_fold set_foldl_key_insert)

lemma unique_snippets_idem: "unique_snippets (unique_snippets xs) = unique_snippets xs"
  using foldl_key_insert_distinct[of "[]" "unique_snippets xs"] unique_snippets_distinct[of xs]
  by (simp add: unique_snippets_fold)

lemma unique_snippets_subseq: "subseq (unique_snippets xs) xs"
  unfolding unique_snippets_index
  by (metis map_nth subseq_filter_left subseq_map)

text \<open>
  Claim C8. For every list \<open>xs\<close> of snippet texts, \<open>unique_snippets xs\<close> keeps exactly the
  elements of \<open>xs\<close> that stand at a first occurrence (position \<open>i\<close> is kept if and only if
  no earlier position holds an equal text), in the order of \<open>xs\<close>; so it has no
  duplicates, has the same elements as \<open>xs\<close>, and is a subsequence of \<open>xs\<close>. Applying it
  twice gives the same list as applying it once.
\<close>

theorem unique_snippets_first_occurrences:
  "unique_snippets xs = map (\<lambda>i. xs ! i) (filter (first_occurrence xs) [0..<length xs])
   \<and> distinct (unique_snippets xs)
   \<and> set (unique_snippets xs) = set xs
   \<and> subseq (unique_snippets xs) xs
   \<and> unique_snippets (unique_snippets xs) = unique_snippets xs"
  using unique_snippets_index unique_snippets_distinct unique_snippets_set
    unique_snippets_subseq unique_snippets_idem
  by blast

section \<open>Entity extraction\<close>

lemma provider_name_openai: "get_provider_name c = ''openai'' \<longleftrightarrow> c = OpenAIProvider"
  by (cases c) simp_all

lemma get_provider_openai:
  "get_provider env ''openai'' m = Some p \<Longrightarrow> p = Provider OpenAIProvider m"
  by (auto simp: get_provider_def provider_name_openai find_Some_iff
      split: option.splits if_splits)

lemma strip_head:
  assumes "\<not> py_isspace c"
  shows "\<exists>t. strip (c # s) = c # t"
proof -
  have "dropWhile py_isspace (rev s @ [c]) =
          (if \<forall>x\<in>set (rev s). py_isspace x then [c] else dropWhile py_isspace (rev s) @ [c])"
    using assms by (simp add: dropWhile_append)
  then obtain ys where "dropWhile py_isspace (rev s @ [c]) = ys @ [c]"
    by (metis append_Nil)
  then have "strip (c # s) = c # rev ys"
    using assms by (simp add: strip_def)
  then show ?thesis by blast
qed

lemma parse_entities_other_head:
  "\<not> py_isspace c \<Longrightarrow> c \<noteq> CHR ''['' \<Longrightarrow> parse_entities env (strip (c # s)) = Inr []"
  using strip_head[of c s] by (auto simp: parse_entities_def startswith_def)

lemma extraction_prompt_nonempty: "extraction_prompt t \<noteq> []"
  by (simp add: extraction_prompt_def nl_def)

lemma openai_internal_call:
  "prompt \<noteq> [] \<Longrightarrow>
   generate_response env (Provider OpenAIProvider ''gpt-3.5-turbo'') (Some prompt) [] [] temp mt w =
     (let req = internal_request prompt (case temp of None \<Rightarrow> 7 / 10 | Some t \<Rightarrow> t)
                  (case mt of None \<Rightarrow> 1500 | Some n \<Rightarrow> n);
          w' = log_call (OpenAI_create req) w
      in case openai_create env req of
           ApiReturns m \<Rightarrow> ((MessageObject m, [RoleContent ''user'' (Some prompt)]), w')
         | ApiError e \<Rightarrow>
             ((MessageObject (Message ''assistant'' (Some (''Error de OpenAI: '' @ e)) None),
               [RoleContent ''user'' (Some prompt)]), w')
         | ApiException e \<Rightarrow>
             ((MessageObject (Message ''assistant'' (Some (''Error inesperado: '' @ e)) None),
               [RoleContent ''user'' (Some prompt)]), w'))"
  by (simp add: generate_response_def openai_generate_response_def internal_request_def Let_def)

lemma extract_entities_result:
  assumes "get_provider env ''openai'' ''gpt-3.5-turbo'' = Some p"
  shows "fst (extract_entities_with_gpt env user_prompt w) =
     (case openai_create env (internal_request (extraction_prompt user_prompt) (7 / 10) 1500) of
        ApiReturns m \<Rightarrow>
          (case msg_content m of
             None \<Rightarrow> []
           | Some c \<Rightarrow> (case parse_entities env (strip c) of Inl e \<Rightarrow> [] | Inr es \<Rightarrow> es))
      | ApiError e \<Rightarrow> []
      | ApiException e \<Rightarrow> [])"
proof -
  have p: "p = Provider OpenAIProvider ''gpt-3.5-turbo''"
    using assms by (rule get_provider_openai)
  have E: "\<not> py_isspace (CHR ''E'')" "CHR ''E'' \<noteq> CHR ''[''"
    by (simp_all add: py_isspace_def)
  have g: "get_provider env ''openai'' ''gpt-3.5-turbo''
             = Some (Provider OpenAIProvider ''gpt-3.5-turbo'')"
    using assms p by simp
  show ?thesis
    using parse_entities_other_head[OF E]
    by (simp add: g extract_entities_with_gpt_def extract_entities_try_def
        openai_internal_call extraction_prompt_nonempty content_strip_def Let_def
        split: api_outcome.splits option.splits sum.splits)
qed

text \<open>
  Claim C5. \<open>extract_entities_with_gpt\<close> is a total function to lists (no exception
  leaves it), and its result is the empty list when no provider can be had, when the
  model call fails (either \<^verbatim>\<open>except\<close> clause of the provider), when the response has
  no content, and when the stripped content is empty, does not begin with \<open>[\<close>, is not
  valid JSON, is not a list, or is a list with an element that is not a string.
\<close>

theorem extract_entities_empty_on_violation:
  "let req = internal_request (extraction_prompt user_prompt) (7 / 10) 1500;
       result = fst (extract_entities_with_gpt env user_prompt w)
   in (get_provider env ''openai'' ''gpt-3.5-turbo'' = None \<longrightarrow> result = [])
    \<and> (\<forall>e. openai_create env req = ApiError e \<longrightarrow> result = [])
    \<and> (\<forall>e. openai_create env req = ApiException e \<longrightarrow> result = [])
    \<and> (\<forall>m. openai_create env req = ApiReturns m \<longrightarrow>
         (msg_content m = None \<longrightarrow> result = [])
       \<and> (\<forall>c. msg_content m = Some c \<longrightarrow>
            (strip c = [] \<longrightarrow> result = [])
          \<and> (\<not> startswith (strip c) (CHR ''['') \<longrightarrow> result = [])
          \<and> (json_loads env (strip c) = None \<longrightarrow> result = [])
          \<and> (\<forall>j. json_loads env (strip c) = Some j \<and> (\<forall>es. j \<noteq> JArr es) \<longrightarrow> result = [])
          \<and> (\<forall>es. json_loads env (strip c) = Some (JArr es) \<and> \<not> list_all is_str es
                 \<longrightarrow> result = [])))"
proof (cases "get_provider env ''openai'' ''gpt-3.5-turbo''")
  case None
  then show ?thesis
    by (simp add: extract_entities_with_gpt_def Let_def)
next
  case (Some p)
  show ?thesis
    using Some
    unfolding Let_def extract_entities_result[OF Some]
    by (auto simp: parse_entities_def split: json.splits)
qed

theorem extract_entities_empty_on_violation_witness:
  "openai_create working_env (internal_request (extraction_prompt (Some ''hola'')) (7 / 10) 1500)
     = ApiReturns (Message ''assistant'' (Some ''ok'') None)
   \<and> \<not> startswith (strip ''ok'') (CHR ''['')
   \<and> fst (extract_entities_with_gpt working_env (Some ''hola'') empty_world) = []"
  using extract_entities_empty_on_violation[of "Some ''hola''" working_env empty_world]
  by (simp add: working_env_def Let_def strip_def py_isspace_def startswith_def)

section \<open>Cascading delete\<close>

text \<open>
  Claim C1, as amended. \<open>delete_session_data\<close> reports failure when the connection to
  the relational store cannot be opened: the exception ends the operation there, and no
  other store is called. When the relational deletion succeeds it reports success and both
  rows of the session are gone, whatever the key-value, similarity-index and graph
  deletions do: their managers catch their own failures.
\<close>

theorem delete_session_data_result:
  "(sqlite_outcome env (Sqlite_delete_session session_id) = SqlConnectError \<longrightarrow>
      delete_session_data env session_id w
        = (False, log_call (Sqlite_delete_session session_id) w))
   \<and> (sqlite_outcome env (Sqlite_delete_session session_id) = SqlOk \<longrightarrow>
        fst (delete_session_data env session_id w) = True
      \<and> sessions_tbl (snd (delete_session_data env session_id w)) session_id = None
      \<and> session_info_tbl (snd (delete_session_data env session_id w)) session_id = None)"
  by (simp add: delete_session_data_def delete_session_def delete_session_history_def
      delete_session_entries_def delete_session_graph_def log_call_def Let_def)

text \<open>
  The claim as stated fails: with a graph deletion that raises (and is caught by the
  graph manager, so that no graph write commits), the operation still reports success.
\<close>

theorem delete_session_data_graph_failure:
  "neo4j_raises graph_down_env (Neo4j_delete_session_graph ''s1'')
   \<and> graph_writes (snd (delete_session_data graph_down_env ''s1'' empty_world)) = []
   \<and> fst (delete_session_data graph_down_env ''s1'' empty_world) = True"
  by (simp add: delete_session_data_def delete_session_def delete_session_history_def
      delete_session_entries_def delete_session_graph_def log_call_def Let_def
      graph_down_env_def working_env_def empty_world_def)

theorem delete_session_data_result_witness:
  "sqlite_outcome working_env (Sqlite_delete_session ''s1'') = SqlOk
   \<and> fst (delete_session_data working_env ''s1'' empty_world) = True"
  using delete_session_data_result[of working_env "''s1''" empty_world]
  by (simp add: working_env_def)

section \<open>Background summarisation\<close>

lemma redis_range_all: "redis_range xs 0 (- 1) = xs"
  by (cases xs) (simp_all add: redis_range_def Let_def)

lemma redis_range_last: "0 < n \<Longrightarrow> redis_range xs (- int n) (- 1) = drop (length xs - n) xs"
  by (auto simp: redis_range_def Let_def max_def nat_diff_distrib' not_le
      intro!: arg_cong2[where f=drop])

lemma mid_term_prompt_nonempty: "mid_term_prompt all_turns previous_summary \<noteq> []"
  by (simp add: mid_term_prompt_def summarization_prompt_def Let_def nl_def split: option.splits)

lemma get_summary_result:
  "get_summary env sid w =
     (case sqlite_outcome env (Sqlite_get_summary sid) of
        SqlConnectError \<Rightarrow> Inl SqliteError
      | SqlExecError \<Rightarrow> Inr None
      | SqlOk \<Rightarrow> Inr (sessions_tbl w sid),
      log_call (Sqlite_get_summary sid) w)"
  by (simp add: get_summary_def log_call_def Let_def split: sqlite_outcome.splits)

lemma get_recent_turns_all:
  "get_recent_turns env sid 0 w =
     (if redis_client env
      then (if redis_error env (Redis_lrange (get_session_key sid) 0 (- 1)) then []
            else redis_lists w (get_session_key sid),
            log_call (Redis_lrange (get_session_key sid) 0 (- 1)) w)
      else ([], w))"
  by (simp add: get_recent_turns_def redis_range_all log_call_def Let_def)

lemma log_call_fields [simp]:
  "sessions_tbl (log_call e w) = sessions_tbl w"
  "session_info_tbl (log_call e w) = session_info_tbl w"
  "redis_lists (log_call e w) = redis_lists w"
  "chroma_docs (log_call e w) = chroma_docs w"
  "graph_writes (log_call e w) = graph_writes w"
  "config (log_call e w) = config w"
  "trace (log_call e w) = trace w @ [e]"
  by (simp_all add: log_call_def)

lemma generate_response_stores [simp]:
  "sessions_tbl (snd (generate_response env p prompt h tools t m w)) = sessions_tbl w"
  "session_info_tbl (snd (generate_response env p prompt h tools t m w)) = session_info_tbl w"
  "redis_lists (snd (generate_response env p prompt h tools t m w)) = redis_lists w"
  "chroma_docs (snd (generate_response env p prompt h tools t m w)) = chroma_docs w"
  "graph_writes (snd (generate_response env p prompt h tools t m w)) = graph_writes w"
  "config (snd (generate_response env p prompt h tools t m w)) = config w"
  by (simp_all add: generate_response_def openai_generate_response_def
      gemini_generate_response_def Let_def
      split: provider_class.splits api_outcome.splits gemini_outcome.splits)

lemma trim_history_fields [simp]:
  "sessions_tbl (trim_history env sid n w) = sessions_tbl w"
  by (simp add: trim_history_def Let_def)

lemma summarize_try_summary:
  "sessions_tbl (snd (summarize_try env p sid prompt n w)) = sessions_tbl w
   \<or> (\<exists>s. sessions_tbl (snd (summarize_try env p sid prompt n w))
             = (sessions_tbl w)(sid := Some (s, n)))"
proof -
  obtain r h w1 where g: "generate_response env p (Some prompt) [] [] (Some (2 / 10)) (Some 250) w
      = ((r, h), w1)"
    by (metis prod.exhaust)
  have w1: "sessions_tbl w1 = sessions_tbl w"
    by (metis g generate_response_stores(1) snd_conv)
  show ?thesis
    using g w1
    by (auto simp: summarize_try_def update_summary_def Let_def
        split: sum.splits sqlite_outcome.splits)
qed

lemma summarize_summary:
  "sessions_tbl (snd (summarize_and_update_mid_term_memory env sid w)) = sessions_tbl w
   \<or> (10 < length (redis_lists w (get_session_key sid))
      \<and> (\<exists>s. sessions_tbl (snd (summarize_and_update_mid_term_memory env sid w))
             = (sessions_tbl w)(sid := Some (s, length (redis_lists w (get_session_key sid))))))"
proof (cases "redis_client env \<and> \<not> redis_error env (Redis_lrange (get_session_key sid) 0 (- 1))
              \<and> 10 < length (redis_lists w (get_session_key sid))")
  case False
  then show ?thesis
    by (auto simp: summarize_and_update_mid_term_memory_def get_recent_turns_all Let_def)
next
  case True
  let ?buf = "redis_lists w (get_session_key sid)"
  let ?w1 = "log_call (Redis_lrange (get_session_key sid) 0 (- 1)) w"
  let ?w2 = "log_call (Sqlite_get_summary sid) ?w1"
  show ?thesis
  proof (cases "get_provider env ''openai'' ''gpt-3.5-turbo''")
    case None
    with True show ?thesis
      by (simp add: summarize_and_update_mid_term_memory_def get_recent_turns_all
          get_summary_result Let_def split: sqlite_outcome.splits)
  next
    case (Some p)
    have "\<And>prompt. sessions_tbl (snd (summarize_try env p sid prompt (length ?buf) ?w2)) = sessions_tbl w
      \<or> (\<exists>s. sessions_tbl (snd (summarize_try env p sid prompt (length ?buf) ?w2))
             = (sessions_tbl w)(sid := Some (s, length ?buf)))"
      using summarize_try_summary[of env p sid _ "length ?buf" ?w2] by simp
    with True Some show ?thesis
      by (simp add: summarize_and_update_mid_term_memory_def get_recent_turns_all
          get_summary_result Let_def split: sqlite_outcome.splits prod.splits sum.splits)
        (metis snd_conv)
  qed
qed

lemma summarize_success:
  assumes "redis_client env"
      and "\<not> redis_error env (Redis_lrange (get_session_key sid) 0 (- 1))"
      and "10 < length (redis_lists w (get_session_key sid))"
      and "fst (get_summary env sid w) = Inr prev"
      and "get_provider env ''openai'' ''gpt-3.5-turbo'' \<noteq> None"
      and "openai_create env
             (internal_request (mid_term_prompt (redis_lists w (get_session_key sid)) prev)
                (2 / 10) 250) = ApiReturns m"
      and "msg_content m = Some c"
      and "sqlite_outcome env
             (Sqlite_update_summary sid (strip c) (length (redis_lists w (get_session_key sid))))
             = SqlOk"
      and "\<not> redis_error env (Redis_ltrim (get_session_key sid) (- 10) (- 1))"
  shows "sessions_tbl (snd (summarize_and_update_mid_term_memory env sid w))
           = (sessions_tbl w)(sid := Some (strip c, length (redis_lists w (get_session_key sid))))"
    and "redis_lists (snd (summarize_and_update_mid_term_memory env sid w))
           = (redis_lists w)(get_session_key sid :=
                drop (length (redis_lists w (get_session_key sid)) - 10)
                  (redis_lists w (get_session_key sid)))"
proof -
  have g: "get_provider env ''openai'' ''gpt-3.5-turbo''
             = Some (Provider OpenAIProvider ''gpt-3.5-turbo'')"
    using assms(5) get_provider_openai by blast
  have r: "redis_range (redis_lists w (get_session_key sid)) (- 10) (- 1)
             = drop (length (redis_lists w (get_session_key sid)) - 10)
                 (redis_lists w (get_session_key sid))"
    using redis_range_last[of 10 "redis_lists w (get_session_key sid)"] by simp
  show "sessions_tbl (snd (summarize_and_update_mid_term_memory env sid w))
           = (sessions_tbl w)(sid := Some (strip c, length (redis_lists w (get_session_key sid))))"
    using assms
    by (simp add: summarize_and_update_mid_term_memory_def get_recent_turns_all
        get_summary_result g summarize_try_def openai_internal_call mid_term_prompt_nonempty
        content_strip_def update_summary_def trim_history_def Let_def
        split: sqlite_outcome.splits)
  show "redis_lists (snd (summarize_and_update_mid_term_memory env sid w))
           = (redis_lists w)(get_session_key sid :=
                drop (length (redis_lists w (get_session_key sid)) - 10)
                  (redis_lists w (get_session_key sid)))"
    using assms
    by (simp add: summarize_and_update_mid_term_memory_def get_recent_turns_all
        get_summary_result g summarize_try_def openai_internal_call mid_term_prompt_nonempty
        content_strip_def update_summary_def trim_history_def Let_def r
        split: sqlite_outcome.splits)
qed

lemma summarize_noop:
  assumes "length (redis_lists w (get_session_key sid)) \<le> 10"
  shows "summarize_and_update_mid_term_memory env sid w
           = (Inr (), if redis_client env
                      then log_call (Redis_lrange (get_session_key sid) 0 (- 1)) w else w)"
  using assms
  by (simp add: summarize_and_update_mid_term_memory_def get_recent_turns_all Let_def)

lemmas example_defs =
  working_env_def buffer_world_def empty_world_def get_session_key_def

lemma first_run:
  "sessions_tbl after_first_run ''s1'' = Some (''ok'', 14)"
  "redis_lists after_first_run (get_session_key ''s1'') = replicate 10 (Turn ''user'' (Some ''hola''))"
proof -
  have p: "get_provider working_env ''openai'' ''gpt-3.5-turbo'' \<noteq> None"
    by (simp add: get_provider_def working_env_def)
  have s: "fst (get_summary working_env ''s1'' (buffer_world 14)) = Inr None"
    by (simp add: get_summary_result example_defs)
  have k: "strip ''ok'' = ''ok''"
    by (simp add: strip_def py_isspace_def)
  note r = summarize_success[of working_env "''s1''" "buffer_world 14" None
      "Message ''assistant'' (Some ''ok'') None" "''ok''", OF _ _ _ s p]
  show "sessions_tbl after_first_run ''s1'' = Some (''ok'', 14)"
    unfolding after_first_run_def by (subst r(1)) (simp_all add: k example_defs)
  show "redis_lists after_first_run (get_session_key ''s1'') = replicate 10 (Turn ''user'' (Some ''hola''))"
    unfolding after_first_run_def by (subst r(2)) (simp_all add: k example_defs)
qed

lemma next_request:
  "redis_lists after_next_request (get_session_key ''s1'')
     = replicate 10 (Turn ''user'' (Some ''hola''))
       @ [Turn ''user'' (Some ''hola''), Turn ''assistant'' (Some ''ok'')]"
  "sessions_tbl after_next_request ''s1'' = Some (''ok'', 14)"
  using first_run
  by (simp_all add: after_next_request_def add_turn_def Let_def working_env_def)

text \<open>
  Claim C2, as amended. Whenever a run of the summariser changes the summary stored for
  the session, the watermark it writes is the length of the recent-turn buffer that the
  run read, which is above 10. The watermark written is not compared with the one it
  replaces.
\<close>

theorem summary_watermark_is_buffer_length:
  "sessions_tbl (snd (summarize_and_update_mid_term_memory env sid w)) sid \<noteq> sessions_tbl w sid
   \<longrightarrow> 10 < length (redis_lists w (get_session_key sid))
       \<and> (\<exists>s. sessions_tbl (snd (summarize_and_update_mid_term_memory env sid w)) sid
                = Some (s, length (redis_lists w (get_session_key sid))))"
  using summarize_summary[of env sid w] by auto

theorem summary_watermark_is_buffer_length_witness:
  "sessions_tbl (snd (summarize_and_update_mid_term_memory working_env ''s1'' (buffer_world 14)))
     ''s1'' \<noteq> sessions_tbl (buffer_world 14) ''s1''
   \<and> length (redis_lists (buffer_world 14) (get_session_key ''s1'')) = 14
   \<and> (\<exists>s. sessions_tbl
            (snd (summarize_and_update_mid_term_memory working_env ''s1'' (buffer_world 14)))
            ''s1'' = Some (s, 14))"
proof -
  have "sessions_tbl (snd (summarize_and_update_mid_term_memory working_env ''s1'' (buffer_world 14)))
     ''s1'' = Some (''ok'', 14)"
    by (simp add: summarize_and_update_mid_term_memory_def get_recent_turns_all
        get_summary_result get_provider_def summarize_try_def openai_internal_call
        mid_term_prompt_nonempty content_strip_def update_summary_def trim_history_def
        Let_def working_env_def buffer_world_def empty_world_def get_session_key_def
        strip_def py_isspace_def)
  moreover have "sessions_tbl (buffer_world 14) ''s1'' = None"
    by (simp add: buffer_world_def empty_world_def)
  moreover have "length (redis_lists (buffer_world 14) (get_session_key ''s1'')) = 14"
    by (simp add: buffer_world_def empty_world_def)
  ultimately show ?thesis
    using summary_watermark_is_buffer_length[of working_env "''s1''" "buffer_world 14"]
    by simp
qed

text \<open>
  The claim as stated fails: the first run writes the watermark 14 and trims the buffer
  to 10 turns, the next request brings it to 12, and the second run writes 12.
\<close>

theorem watermark_decreases:
  "sessions_tbl after_first_run ''s1'' = Some (''ok'', 14)
   \<and> sessions_tbl after_second_run ''s1'' = Some (''ok'', 12)"
proof -
  have p: "get_provider working_env ''openai'' ''gpt-3.5-turbo'' \<noteq> None"
    by (simp add: get_provider_def working_env_def)
  have s: "fst (get_summary working_env ''s1'' after_next_request) = Inr (Some (''ok'', 14))"
    by (simp add: get_summary_result next_request working_env_def)
  have k: "strip ''ok'' = ''ok''"
    by (simp add: strip_def py_isspace_def)
  note r = summarize_success(1)[of working_env "''s1''" after_next_request "Some (''ok'', 14)"
      "Message ''assistant'' (Some ''ok'') None" "''ok''", OF _ _ _ s p]
  have "sessions_tbl after_second_run ''s1'' = Some (''ok'', 12)"
    unfolding after_second_run_def by (subst r) (simp_all add: k next_request working_env_def)
  then show ?thesis
    using first_run(1) by simp
qed

text \<open>
  Claim C7, as amended. With a buffer of at most 10 turns the summariser writes no
  summary and leaves every buffer as it is. With a buffer of \<open>L > 10\<close> turns that is
  read without a Redis error, when the summary fetch does not raise, the model call
  returns a message with content, the write of the summary succeeds and the trim meets
  no Redis error, the stored summary is the stripped content with watermark \<open>L\<close> and the
  buffer holds exactly its last 10 turns.
\<close>

theorem summarizer_noop_or_replace:
  "let key = get_session_key sid;
       buf = redis_lists w key;
       w' = snd (summarize_and_update_mid_term_memory env sid w)
   in (length buf \<le> 10 \<longrightarrow>
         sessions_tbl w' = sessions_tbl w \<and> redis_lists w' = redis_lists w)
    \<and> (\<forall>prev m c.
          redis_client env \<and> \<not> redis_error env (Redis_lrange key 0 (- 1))
          \<and> 10 < length buf
          \<and> fst (get_summary env sid w) = Inr prev
          \<and> get_provider env ''openai'' ''gpt-3.5-turbo'' \<noteq> None
          \<and> openai_create env (internal_request (mid_term_prompt buf prev) (2 / 10) 250)
                = ApiReturns m
          \<and> msg_content m = Some c
          \<and> sqlite_outcome env (Sqlite_update_summary sid (strip c) (length buf)) = SqlOk
          \<and> \<not> redis_error env (Redis_ltrim key (- 10) (- 1))
          \<longrightarrow> sessions_tbl w' sid = Some (strip c, length buf)
              \<and> redis_lists w' key = drop (length buf - 10) buf
              \<and> length (redis_lists w' key) = 10)"
proof -
  have noop: "length (redis_lists w (get_session_key sid)) \<le> 10 \<Longrightarrow>
      sessions_tbl (snd (summarize_and_update_mid_term_memory env sid w)) = sessions_tbl w
      \<and> redis_lists (snd (summarize_and_update_mid_term_memory env sid w)) = redis_lists w"
    by (simp add: summarize_noop)
  show ?thesis
    unfolding Let_def
    using noop summarize_success[of env sid w]
    by (auto simp del: One_nat_def)
qed

theorem summarizer_noop_or_replace_witness:
  "length (redis_lists (buffer_world 15) (get_session_key ''s1'')) = 15
   \<and> sessions_tbl (snd (summarize_and_update_mid_term_memory working_env ''s1'' (buffer_world 15)))
         ''s1'' = Some (''ok'', 15)
   \<and> redis_lists (snd (summarize_and_update_mid_term_memory working_env ''s1'' (buffer_world 15)))
         (get_session_key ''s1'') = replicate 10 (Turn ''user'' (Some ''hola''))"
proof -
  have p: "get_provider working_env ''openai'' ''gpt-3.5-turbo'' \<noteq> None"
    by (simp add: get_provider_def working_env_def)
  have s: "fst (get_summary working_env ''s1'' (buffer_world 15)) = Inr None"
    by (simp add: get_summary_result example_defs)
  have k: "strip ''ok'' = ''ok''"
    by (simp add: strip_def py_isspace_def)
  show ?thesis
    using summarizer_noop_or_replace[of "''s1''" "buffer_world 15" working_env] p s k
    by (simp add: Let_def example_defs)
qed

text \<open>
  The claim as stated fails: here the buffer holds 12 turns, the model call succeeds and
  the summary is written with watermark 12, but the \<^verbatim>\<open>LTRIM\<close> meets a Redis error,
  which \<^verbatim>\<open>trim_history\<close> catches and logs: the buffer keeps its 12 turns.
\<close>

theorem summarizer_keeps_buffer_when_trim_fails:
  "length (redis_lists (buffer_world 12) (get_session_key ''s1'')) = 12
   \<and> openai_create trim_fails_env
         (internal_request
            (mid_term_prompt (redis_lists (buffer_world 12) (get_session_key ''s1'')) None)
            (2 / 10) 250)
       = ApiReturns (Message ''assistant'' (Some ''ok'') None)
   \<and> sessions_tbl
         (snd (summarize_and_update_mid_term_memory trim_fails_env ''s1''
                 (buffer_world 12))) ''s1'' = Some (''ok'', 12)
   \<and> length (redis_lists
         (snd (summarize_and_update_mid_term_memory trim_fails_env ''s1''
                 (buffer_world 12))) (get_session_key ''s1'')) = 12"
  by (simp add: summarize_and_update_mid_term_memory_def get_recent_turns_all
      get_summary_result get_provider_def summarize_try_def openai_internal_call
      mid_term_prompt_nonempty content_strip_def update_summary_def trim_history_def
      strip_def py_isspace_def
      redis_range_def Let_def trim_fails_env_def example_defs)

text \<open>
  The hypothesis on the write of the summary keeps a defect of the code out of the
  statement: \<^verbatim>\<open>update_summary\<close> catches an \<^verbatim>\<open>sqlite3.Error\<close> and returns normally, so
  the summariser goes on to trim the buffer although no summary was stored, and the
  turns that were to be summarised are lost. Here the buffer holds 11 turns.
\<close>

lemma summary_write_failure_still_trims:
  "length (redis_lists (buffer_world 11) (get_session_key ''s1'')) = 11
   \<and> openai_create summary_write_fails_env
         (internal_request
            (mid_term_prompt (redis_lists (buffer_world 11) (get_session_key ''s1'')) None)
            (2 / 10) 250)
       = ApiReturns (Message ''assistant'' (Some ''ok'') None)
   \<and> sessions_tbl
         (snd (summarize_and_update_mid_term_memory summary_write_fails_env ''s1''
                 (buffer_world 11))) ''s1'' = None
   \<and> length (redis_lists
         (snd (summarize_and_update_mid_term_memory summary_write_fails_env ''s1''
                 (buffer_world 11))) (get_session_key ''s1'')) = 10"
  by (simp add: summarize_and_update_mid_term_memory_def get_recent_turns_all
      get_summary_result get_provider_def summarize_try_def openai_internal_call
      mid_term_prompt_nonempty content_strip_def update_summary_def trim_history_def
      redis_range_def Let_def summary_write_fails_env_def example_defs)

section \<open>The calls issued by the internal functions\<close>

lemma issues_iff: "issues P w w' \<longleftrightarrow> (\<exists>evs. trace w' = trace w @ evs \<and> list_all P evs)"
proof
  assume "issues P w w'"
  then have "trace w' = trace w @ new_calls w w'" "list_all P (new_calls w w')"
    unfolding issues_def new_calls_def by (metis append_take_drop_id, simp)
  then show "\<exists>evs. trace w' = trace w @ evs \<and> list_all P evs" by blast
next
  assume "\<exists>evs. trace w' = trace w @ evs \<and> list_all P evs"
  then show "issues P w w'"
    by (auto simp: issues_def new_calls_def)
qed

lemma issues_refl [simp]: "issues P w w"
  by (simp add: issues_iff)

lemma issues_trans: "issues P w w' \<Longrightarrow> issues P w' w'' \<Longrightarrow> issues P w w''"
  by (auto simp: issues_iff)

lemma issues_mono: "issues P w w' \<Longrightarrow> (\<And>e. P e \<Longrightarrow> Q e) \<Longrightarrow> issues Q w w'"
  by (auto simp: issues_iff list_all_iff)

lemma issues_log: "P e \<Longrightarrow> issues P w (log_call e w)"
  by (simp add: issues_iff)

lemma issues_update [simp]:
  "issues P w (w'\<lparr>redis_lists := r\<rparr>) = issues P w w'"
  "issues P w (w'\<lparr>sessions_tbl := s\<rparr>) = issues P w w'"
  "issues P w (w'\<lparr>session_info_tbl := i\<rparr>) = issues P w w'"
  "issues P w (w'\<lparr>chroma_docs := c\<rparr>) = issues P w w'"
  "issues P w (w'\<lparr>graph_writes := g\<rparr>) = issues P w w'"
  "issues P w (w'\<lparr>config := k\<rparr>) = issues P w w'"
  by (simp_all add: issues_def new_calls_def)

lemma issues_new_calls:
  "issues P w w' \<Longrightarrow> trace w' = trace w @ new_calls w w' \<and> list_all P (new_calls w w')"
  unfolding issues_def new_calls_def by (metis append_take_drop_id)

lemma new_calls_trans:
  "issues P w w' \<Longrightarrow> issues Q w' w'' \<Longrightarrow> new_calls w w'' = new_calls w w' @ new_calls w' w''"
  by (auto simp: issues_iff new_calls_def)

lemma new_calls_log [simp]: "new_calls w (log_call e w) = [e]"
  by (simp add: new_calls_def)

lemma same_stores_refl [simp]: "same_stores w w"
  by (simp add: same_stores_def)

lemma same_stores_trans: "same_stores w w' \<Longrightarrow> same_stores w' w'' \<Longrightarrow> same_stores w w''"
  by (simp add: same_stores_def)

lemma same_stores_log [simp]: "same_stores w (log_call e w)"
  by (simp add: same_stores_def)

subsection \<open>Calls of generate_response\<close>

lemma generate_response_issues:
  "issues is_model_call w (snd (generate_response env p prompt h tools t m w))"
  by (simp add: generate_response_def openai_generate_response_def
      gemini_generate_response_def Let_def issues_log
      split: provider_class.splits api_outcome.splits gemini_outcome.splits)

lemma generate_response_same_stores:
  "same_stores w (snd (generate_response env p prompt h tools t m w))"
  by (simp add: same_stores_def)

lemma generate_response_same_storesD:
  "generate_response env p prompt h tools t m w = (rh, w') \<Longrightarrow> same_stores w w'"
  by (metis generate_response_same_stores snd_conv)

lemma generate_response_issuesD:
  "generate_response env p prompt h tools t m w = (rh, w') \<Longrightarrow> issues is_model_call w w'"
  by (metis generate_response_issues snd_conv)

lemma openai_gpt35_issues:
  "issues addressed_to_gpt35 w
     (snd (generate_response env (Provider OpenAIProvider ''gpt-3.5-turbo'') prompt h tools t m w))"
  by (simp add: generate_response_def openai_generate_response_def Let_def issues_log
      split: api_outcome.splits)

subsection \<open>Calls of extraction and synthesis\<close>

lemma extract_issues:
  "issues addressed_to_gpt35 w (snd (extract_entities_with_gpt env t w))"
proof (cases "get_provider env ''openai'' ''gpt-3.5-turbo''")
  case None
  then show ?thesis by (simp add: extract_entities_with_gpt_def)
next
  case (Some p)
  then have p: "p = Provider OpenAIProvider ''gpt-3.5-turbo''"
    by (rule get_provider_openai)
  show ?thesis
    using openai_gpt35_issues[of w env "Some (extraction_prompt t)" "[]" "[]" None None]
    by (auto simp: extract_entities_with_gpt_def Some p extract_entities_try_def
        split: prod.splits sum.splits)
qed

lemma extract_same_stores:
  "same_stores w (snd (extract_entities_with_gpt env t w))"
  by (auto simp: extract_entities_with_gpt_def extract_entities_try_def
      dest: generate_response_same_storesD split: option.splits prod.splits sum.splits)

lemma synthesize_issues:
  "issues addressed_to_gpt35 w (snd (synthesize_context_with_gpt env snippets w))"
proof (cases "get_provider env ''openai'' ''gpt-3.5-turbo''")
  case None
  then show ?thesis by (simp add: synthesize_context_with_gpt_def Let_def)
next
  case (Some p)
  then have p: "p = Provider OpenAIProvider ''gpt-3.5-turbo''"
    by (rule get_provider_openai)
  show ?thesis
    using openai_gpt35_issues[of w env "Some (synthesis_prompt (join nl snippets))" "[]" "[]"
        "Some (3 / 10)" "Some 300"]
    by (auto simp: synthesize_context_with_gpt_def Some p Let_def
        split: prod.splits sum.splits)
qed

lemma synthesize_same_stores:
  "same_stores w (snd (synthesize_context_with_gpt env snippets w))"
  by (auto simp: synthesize_context_with_gpt_def Let_def
      dest: generate_response_same_storesD split: option.splits prod.splits sum.splits)

subsection \<open>Calls of the summariser\<close>

lemma gpt35_is_model_call: "addressed_to_gpt35 e \<Longrightarrow> is_model_call e"
  by (cases e) simp_all

lemma summarize_try_issues:
  "issues (\<lambda>e. is_model_call e \<longrightarrow> addressed_to_gpt35 e) w
     (snd (summarize_try env (Provider OpenAIProvider ''gpt-3.5-turbo'') sid prompt n w))"
proof -
  obtain r h w1 where g: "generate_response env (Provider OpenAIProvider ''gpt-3.5-turbo'')
      (Some prompt) [] [] (Some (2 / 10)) (Some 250) w = ((r, h), w1)"
    by (metis prod.exhaust)
  have "issues addressed_to_gpt35 w w1"
    by (metis g openai_gpt35_issues snd_conv)
  then have 1: "issues (\<lambda>e. is_model_call e \<longrightarrow> addressed_to_gpt35 e) w w1"
    by (rule issues_mono) simp
  have 2: "issues (\<lambda>e. is_model_call e \<longrightarrow> addressed_to_gpt35 e) w1
     (snd (case content_strip r of
             Inl e \<Rightarrow> (Inl e, w1)
           | Inr summary_text \<Rightarrow>
               (case update_summary env sid summary_text n w1 of
                  (Inl e, w2) \<Rightarrow> (Inl e, w2)
                | (Inr u, w2) \<Rightarrow> (Inr (), trim_history env sid 10 w2))))"
    by (auto simp: update_summary_def trim_history_def Let_def issues_iff
        split: sum.splits sqlite_outcome.splits)
  show ?thesis
    using g issues_trans[OF 1 2] by (simp add: summarize_try_def)
qed

lemma summarize_issues:
  "issues (\<lambda>e. is_model_call e \<longrightarrow> addressed_to_gpt35 e) w
     (snd (summarize_and_update_mid_term_memory env sid w))"
proof -
  let ?P = "\<lambda>e. is_model_call e \<longrightarrow> addressed_to_gpt35 e"
  let ?S = "summarize_and_update_mid_term_memory env sid w"
  obtain all_turns w1 where r: "get_recent_turns env sid 0 w = (all_turns, w1)"
    by (metis prod.exhaust)
  have 1: "issues ?P w w1"
    using r by (auto simp: get_recent_turns_all issues_log split: if_splits)
  let ?w2 = "log_call (Sqlite_get_summary sid) w1"
  have 2: "issues ?P w1 ?w2"
    by (simp add: issues_log)
  have "issues ?P w1 (snd ?S)"
  proof (cases "int (length all_turns) - 10 \<le> 0")
    case True
    then show ?thesis
      using r by (simp add: summarize_and_update_mid_term_memory_def)
  next
    case False
    note long = this
    show ?thesis
    proof (cases "sqlite_outcome env (Sqlite_get_summary sid) = SqlConnectError")
      case True
      then show ?thesis
        using r long 2
        by (simp add: summarize_and_update_mid_term_memory_def get_summary_result Let_def)
    next
      case False
      then obtain prev where s: "get_summary env sid w1 = (Inr prev, ?w2)"
        by (cases "sqlite_outcome env (Sqlite_get_summary sid)")
          (simp_all add: get_summary_result)
      show ?thesis
      proof (cases "get_provider env ''openai'' ''gpt-3.5-turbo''")
        case None
        then show ?thesis
          using r long s 2
          by (simp add: summarize_and_update_mid_term_memory_def Let_def)
      next
        case (Some p)
        then have p: "p = Provider OpenAIProvider ''gpt-3.5-turbo''"
          by (rule get_provider_openai)
        let ?T = "summarize_try env p sid (mid_term_prompt all_turns prev) (length all_turns) ?w2"
        have 3: "issues ?P ?w2 (snd ?T)"
          unfolding p by (rule summarize_try_issues)
        have "snd ?S = snd ?T"
          using r long s Some
          by (simp add: summarize_and_update_mid_term_memory_def Let_def
              split: prod.splits sum.splits)
        then show ?thesis
          using issues_trans[OF 2 3] by simp
      qed
    qed
  qed
  with 1 show ?thesis
    by (rule issues_trans)
qed

lemma issues_Ball:
  "issues P w w' \<Longrightarrow> \<forall>e \<in> set (new_calls w w'). P e"
  by (simp add: issues_def list_all_iff)

subsection \<open>Independence of the configuration\<close>

lemma log_call_config: "log_call e (w\<lparr>config := c\<rparr>) = (log_call e w)\<lparr>config := c\<rparr>"
  by (simp add: log_call_def)

lemma generate_response_config:
  "generate_response env p prompt h tools t m (w\<lparr>config := c\<rparr>) =
     (fst (generate_response env p prompt h tools t m w),
      (snd (generate_response env p prompt h tools t m w))\<lparr>config := c\<rparr>)"
  by (simp add: generate_response_def openai_generate_response_def
      gemini_generate_response_def Let_def log_call_config
      split: provider_class.splits api_outcome.splits gemini_outcome.splits)

lemma extract_config:
  "extract_entities_with_gpt env t (w\<lparr>config := c\<rparr>) =
     (fst (extract_entities_with_gpt env t w),
      (snd (extract_entities_with_gpt env t w))\<lparr>config := c\<rparr>)"
  by (auto simp: extract_entities_with_gpt_def extract_entities_try_def
      generate_response_config split_beta
      split: option.splits sum.splits)

lemma synthesize_config:
  "synthesize_context_with_gpt env snippets (w\<lparr>config := c\<rparr>) =
     (fst (synthesize_context_with_gpt env snippets w),
      (snd (synthesize_context_with_gpt env snippets w))\<lparr>config := c\<rparr>)"
  by (simp add: synthesize_context_with_gpt_def generate_response_config split_beta Let_def
      split: option.splits sum.splits)

lemma get_recent_turns_config:
  "get_recent_turns env sid n (w\<lparr>config := c\<rparr>) =
     (fst (get_recent_turns env sid n w), (snd (get_recent_turns env sid n w))\<lparr>config := c\<rparr>)"
  by (simp add: get_recent_turns_def Let_def log_call_def)

lemma get_summary_config:
  "get_summary env sid (w\<lparr>config := c\<rparr>) =
     (fst (get_summary env sid w), (snd (get_summary env sid w))\<lparr>config := c\<rparr>)"
  by (simp add: get_summary_result log_call_config split: sqlite_outcome.splits)

lemma update_summary_config:
  "update_summary env sid s n (w\<lparr>config := c\<rparr>) =
     (fst (update_summary env sid s n w), (snd (update_summary env sid s n w))\<lparr>config := c\<rparr>)"
  by (simp add: update_summary_def Let_def log_call_def split: sqlite_outcome.splits)

lemma trim_history_config:
  "trim_history env sid n (w\<lparr>config := c\<rparr>) = (trim_history env sid n w)\<lparr>config := c\<rparr>"
  by (simp add: trim_history_def Let_def log_call_def)

lemma summarize_try_config:
  "summarize_try env p sid prompt n (w\<lparr>config := c\<rparr>) =
     (fst (summarize_try env p sid prompt n w),
      (snd (summarize_try env p sid prompt n w))\<lparr>config := c\<rparr>)"
  by (simp add: summarize_try_def generate_response_config update_summary_config
      trim_history_config split_beta split: sum.splits)

lemma summarize_config:
  "summarize_and_update_mid_term_memory env sid (w\<lparr>config := c\<rparr>) =
     (fst (summarize_and_update_mid_term_memory env sid w),
      (snd (summarize_and_update_mid_term_memory env sid w))\<lparr>config := c\<rparr>)"
  by (simp add: summarize_and_update_mid_term_memory_def get_recent_turns_config
      get_summary_config summarize_try_config split_beta Let_def
      split: option.splits sum.splits)

text \<open>
  Claim C10. Every model call that entity extraction, context synthesis and background
  summarisation issue is a call of the OpenAI API with the model \<^verbatim>\<open>gpt-3.5-turbo\<close>,
  for every input and every state; and these three functions return the same result and
  issue the same calls whatever the orchestrator's \<^verbatim>\<open>llm_config\<close> holds (they
  pass it through unchanged).
\<close>

theorem internal_calls_use_gpt35:
  "(\<forall>e \<in> set (new_calls w (snd (extract_entities_with_gpt env t w))).
       is_model_call e \<longrightarrow> addressed_to_gpt35 e)
   \<and> (\<forall>e \<in> set (new_calls w (snd (synthesize_context_with_gpt env snippets w))).
       is_model_call e \<longrightarrow> addressed_to_gpt35 e)
   \<and> (\<forall>e \<in> set (new_calls w (snd (summarize_and_update_mid_term_memory env sid w))).
       is_model_call e \<longrightarrow> addressed_to_gpt35 e)
   \<and> extract_entities_with_gpt env t (w\<lparr>config := c\<rparr>) =
       (fst (extract_entities_with_gpt env t w),
        (snd (extract_entities_with_gpt env t w))\<lparr>config := c\<rparr>)
   \<and> synthesize_context_with_gpt env snippets (w\<lparr>config := c\<rparr>) =
       (fst (synthesize_context_with_gpt env snippets w),
        (snd (synthesize_context_with_gpt env snippets w))\<lparr>config := c\<rparr>)
   \<and> summarize_and_update_mid_term_memory env sid (w\<lparr>config := c\<rparr>) =
       (fst (summarize_and_update_mid_term_memory env sid w),
        (snd (summarize_and_update_mid_term_memory env sid w))\<lparr>config := c\<rparr>)"
proof -
  have 1: "\<forall>e \<in> set (new_calls w (snd (extract_entities_with_gpt env t w))).
       is_model_call e \<longrightarrow> addressed_to_gpt35 e"
    using issues_Ball[OF extract_issues] by blast
  have 2: "\<forall>e \<in> set (new_calls w (snd (synthesize_context_with_gpt env snippets w))).
       is_model_call e \<longrightarrow> addressed_to_gpt35 e"
    using issues_Ball[OF synthesize_issues] by blast
  have 3: "\<forall>e \<in> set (new_calls w (snd (summarize_and_update_mid_term_memory env sid w))).
       is_model_call e \<longrightarrow> addressed_to_gpt35 e"
    using issues_Ball[OF summarize_issues] by blast
  show ?thesis
    using 1 2 3 extract_config synthesize_config summarize_config by blast
qed

theorem internal_calls_use_gpt35_witness:
  "new_calls empty_world (snd (extract_entities_with_gpt working_env (Some ''hola'') empty_world))
     = [OpenAI_create (internal_request (extraction_prompt (Some ''hola'')) (7 / 10) 1500)]
   \<and> is_model_call (OpenAI_create (internal_request (extraction_prompt (Some ''hola'')) (7 / 10) 1500))
   \<and> addressed_to_gpt35
         (OpenAI_create (internal_request (extraction_prompt (Some ''hola'')) (7 / 10) 1500))"
proof -
  have n: "new_calls empty_world
             (snd (extract_entities_with_gpt working_env (Some ''hola'') empty_world))
     = [OpenAI_create (internal_request (extraction_prompt (Some ''hola'')) (7 / 10) 1500)]"
    by (simp add: extract_entities_with_gpt_def extract_entities_try_def get_provider_def
        openai_internal_call extraction_prompt_nonempty working_env_def Let_def
        new_calls_def empty_world_def split: sum.splits)
  show ?thesis
    using internal_calls_use_gpt35[of empty_world working_env "Some ''hola''"] n
    by simp
qed

section \<open>Retrieval without entities\<close>

lemma gpt35_not_long_term: "addressed_to_gpt35 e \<Longrightarrow> not_long_term e"
  by (cases e) (simp_all add: not_long_term_def)

lemma get_recent_turns_issues:
  "issues not_long_term w (snd (get_recent_turns env sid n w))"
  by (simp add: get_recent_turns_def Let_def issues_log not_long_term_def)

lemma get_recent_turns_same_stores:
  "same_stores w (snd (get_recent_turns env sid n w))"
  by (simp add: get_recent_turns_def Let_def)

lemma collect_without_entities:
  assumes "collect_context_snippets env sid prompt w = (Inr ([], snippets), w')"
  shows "issues addressed_to_gpt35 (log_call (Sqlite_get_summary sid) w) w'"
    and "snippets = (case fst (get_summary env sid w) of
                       Inr (Some (t, n)) \<Rightarrow> if t = [] then [] else [t]
                     | other \<Rightarrow> [])"
proof -
  let ?w1 = "log_call (Sqlite_get_summary sid) w"
  obtain summary where s: "get_summary env sid w = (Inr summary, ?w1)"
    using assms
    by (cases "sqlite_outcome env (Sqlite_get_summary sid)")
      (simp_all add: collect_context_snippets_def get_summary_result)
  obtain names w2 where e: "extract_entities_with_gpt env (Some prompt) ?w1 = (names, w2)"
    by (metis prod.exhaust)
  have names: "names = []"
    using assms s e
    by (simp add: collect_context_snippets_def Let_def split: if_splits prod.splits)
  have w': "w' = w2"
    and sn: "snippets = (case summary of None \<Rightarrow> []
                          | Some (t, n) \<Rightarrow> if t = [] then [] else [t])"
    using assms s e names
    by (simp_all add: collect_context_snippets_def Let_def)
  show "issues addressed_to_gpt35 ?w1 w'"
    unfolding w' by (metis e extract_issues snd_conv)
  show "snippets = (case fst (get_summary env sid w) of
                       Inr (Some (t, n)) \<Rightarrow> if t = [] then [] else [t]
                     | other \<Rightarrow> [])"
    unfolding sn s by (simp split: option.splits)
qed

lemma issues_after_log:
  assumes "issues P (log_call e w) w'"
  shows "new_calls w w' = e # new_calls (log_call e w) w'"
  using new_calls_trans[OF issues_log[of "\<lambda>x. True" e w] assms] by simp

lemma not_long_term_list:
  "list_all not_long_term evs \<Longrightarrow>
     \<not> list_ex is_similarity_query evs \<and> \<not> list_ex is_graph_query evs"
  by (auto simp: list_all_iff list_ex_iff not_long_term_def)

lemma build_without_entities:
  assumes "build_augmented_prompt env sid prompt directives w = (Inr ctx, w')"
      and "ctx_entities ctx = []"
  shows "issues not_long_term (log_call (Sqlite_get_summary sid) w) w'"
proof -
  let ?w0 = "log_call (Sqlite_get_summary sid) w"
  obtain names snippets w1 where
    c: "collect_context_snippets env sid prompt w = (Inr (names, snippets), w1)"
    using assms(1)
    by (auto simp: build_augmented_prompt_def split: prod.splits sum.splits)
  let ?uniq = "unique_snippets snippets"
  obtain syn w2 where
    y: "(if ?uniq = [] then ([], w1) else synthesize_context_with_gpt env ?uniq w1) = (syn, w2)"
    by (metis prod.exhaust)
  obtain hist w3 where h: "get_recent_turns env sid 10 w2 = (hist, w3)"
    by (metis prod.exhaust)
  have r: "ctx_entities ctx = names" "w' = w3"
    using assms(1) c y h by (auto simp: build_augmented_prompt_def Let_def)
  then have c0: "collect_context_snippets env sid prompt w = (Inr ([], snippets), w1)"
    using c assms(2) by simp
  have 1: "issues not_long_term ?w0 w1"
    using collect_without_entities(1)[OF c0] gpt35_not_long_term by (rule issues_mono)
  have "issues addressed_to_gpt35 w1 w2"
    using y by (metis issues_refl prod.inject snd_conv synthesize_issues)
  then have 2: "issues not_long_term w1 w2"
    using gpt35_not_long_term by (rule issues_mono)
  have 3: "issues not_long_term w2 w3"
    by (metis h get_recent_turns_issues snd_conv)
  show ?thesis
    unfolding r(2) using issues_trans[OF issues_trans[OF 1 2] 3] .
qed

text \<open>
  Claim C6. When entity extraction returns no entity, the retrieval (lines 117 to 161)
  issues no similarity-index query and no graph query; its first call is the fetch of
  the session's rolling summary, and the candidate snippets are that summary alone when
  the fetch returns one with non-empty text, and nothing otherwise. The same holds for
  the calls of the whole of \<open>build_augmented_prompt\<close>.
\<close>

theorem no_entities_no_long_term_lookup:
  "(\<forall>snippets w'.
      collect_context_snippets env sid prompt w = (Inr ([], snippets), w') \<longrightarrow>
        \<not> list_ex is_similarity_query (new_calls w w')
      \<and> \<not> list_ex is_graph_query (new_calls w w')
      \<and> hd (new_calls w w') = Sqlite_get_summary sid \<and> new_calls w w' \<noteq> []
      \<and> snippets = (case fst (get_summary env sid w) of
                        Inr (Some (t, n)) \<Rightarrow> if t = [] then [] else [t]
                      | other \<Rightarrow> []))
   \<and> (\<forall>ctx w'.
        build_augmented_prompt env sid prompt directives w = (Inr ctx, w')
        \<and> ctx_entities ctx = [] \<longrightarrow>
          \<not> list_ex is_similarity_query (new_calls w w')
        \<and> \<not> list_ex is_graph_query (new_calls w w')
        \<and> hd (new_calls w w') = Sqlite_get_summary sid \<and> new_calls w w' \<noteq> [])"
proof (intro conjI allI impI)
  fix snippets w'
  assume c: "collect_context_snippets env sid prompt w = (Inr ([], snippets), w')"
  let ?w0 = "log_call (Sqlite_get_summary sid) w"
  have i: "issues not_long_term ?w0 w'"
    using collect_without_entities(1)[OF c] gpt35_not_long_term by (rule issues_mono)
  have n: "new_calls w w' = Sqlite_get_summary sid # new_calls ?w0 w'"
    using i by (rule issues_after_log)
  have l: "list_all not_long_term (new_calls w w')"
    using i n by (simp add: issues_def not_long_term_def)
  show "\<not> list_ex is_similarity_query (new_calls w w')"
    and "\<not> list_ex is_graph_query (new_calls w w')"
    using not_long_term_list[OF l] by simp_all
  show "hd (new_calls w w') = Sqlite_get_summary sid" and "new_calls w w' \<noteq> []"
    using n by simp_all
  show "snippets = (case fst (get_summary env sid w) of
                        Inr (Some (t, n)) \<Rightarrow> if t = [] then [] else [t]
                      | other \<Rightarrow> [])"
    using c by (rule collect_without_entities(2))
next
  fix ctx w'
  assume "build_augmented_prompt env sid prompt directives w = (Inr ctx, w')
            \<and> ctx_entities ctx = []"
  then have i: "issues not_long_term (log_call (Sqlite_get_summary sid) w) w'"
    using build_without_entities by blast
  have n: "new_calls w w' = Sqlite_get_summary sid
             # new_calls (log_call (Sqlite_get_summary sid) w) w'"
    using i by (rule issues_after_log)
  have l: "list_all not_long_term (new_calls w w')"
    using i n by (simp add: issues_def not_long_term_def)
  show "\<not> list_ex is_similarity_query (new_calls w w')"
    and "\<not> list_ex is_graph_query (new_calls w w')"
    using not_long_term_list[OF l] by simp_all
  show "hd (new_calls w w') = Sqlite_get_summary sid" and "new_calls w w' \<noteq> []"
    using n by simp_all
qed

theorem no_entities_no_long_term_lookup_witness:
  "fst (collect_context_snippets working_env ''s1'' ''hola'' summary_world)
     = Inr ([], [''resumen''])
   \<and> \<not> list_ex is_similarity_query
         (new_calls summary_world
            (snd (collect_context_snippets working_env ''s1'' ''hola'' summary_world)))
   \<and> \<not> list_ex is_graph_query
         (new_calls summary_world
            (snd (collect_context_snippets working_env ''s1'' ''hola'' summary_world)))
   \<and> hd (new_calls summary_world
            (snd (collect_context_snippets working_env ''s1'' ''hola'' summary_world)))
       = Sqlite_get_summary ''s1''"
proof -
  have f: "fst (collect_context_snippets working_env ''s1'' ''hola'' summary_world)
             = Inr ([], [''resumen''])"
    by (simp add: collect_context_snippets_def get_summary_result
        extract_entities_with_gpt_def extract_entities_try_def get_provider_def
        openai_internal_call extraction_prompt_nonempty content_strip_def parse_entities_def
        strip_def py_isspace_def startswith_def working_env_def summary_world_def
        empty_world_def Let_def)
  then have c: "collect_context_snippets working_env ''s1'' ''hola'' summary_world
      = (Inr ([], [''resumen'']),
         snd (collect_context_snippets working_env ''s1'' ''hola'' summary_world))"
    by (metis prod.collapse)
  show ?thesis
    using no_entities_no_long_term_lookup[of working_env "''s1''" "''hola''" summary_world] c f
    by simp
qed

section \<open>Truncation of similarity-index hits\<close>

lemma truncate_doc_long: "300 < length doc \<Longrightarrow> truncate_doc doc = take 300 doc @ ''...''"
  by (simp add: truncate_doc_def)

lemma truncate_doc_short: "length doc \<le> 300 \<Longrightarrow> truncate_doc doc = doc"
  by (simp add: truncate_doc_def)

text \<open>
  The snippets that the ChromaDB loop adds are the truncated hits, entity by entity, and
  the Neo4j loop adds the sentences of the entities that have related concepts.
\<close>

lemma chroma_step_result:
  "fst (chroma_step env sid (acc, w) e) = acc @ map truncate_doc (similarity_hits env sid e)"
  by (simp add: chroma_step_def search_similar_def similarity_hits_def Let_def
      split: query_outcome.splits option.splits list.splits)

lemma foldl_chroma_step:
  "fst (foldl (chroma_step env sid) (acc, w) names) =
     acc @ concat (map (\<lambda>e. map truncate_doc (similarity_hits env sid e)) names)"
proof (induction names arbitrary: acc w)
  case Nil
  then show ?case by simp
next
  case (Cons e names)
  obtain acc' w' where s: "chroma_step env sid (acc, w) e = (acc', w')"
    by (metis prod.exhaust)
  have "acc' = acc @ map truncate_doc (similarity_hits env sid e)"
    using chroma_step_result[of env sid acc w e] s by simp
  then show ?case
    using s Cons.IH[of acc' w'] by simp
qed

lemma neo4j_step_result:
  "fst (neo4j_step env sid (acc, w) e) =
     acc @ (if related_concepts_of env sid e = [] then []
            else [structural_info e (related_concepts_of env sid e)])"
  by (simp add: neo4j_step_def get_related_entities_def related_concepts_of_def Let_def)

lemma foldl_neo4j_step:
  "fst (foldl (neo4j_step env sid) (acc, w) names) = acc @ graph_sentences env sid names"
proof (induction names arbitrary: acc w)
  case Nil
  then show ?case by (simp add: graph_sentences_def)
next
  case (Cons e names)
  obtain acc' w' where s: "neo4j_step env sid (acc, w) e = (acc', w')"
    by (metis prod.exhaust)
  have "acc' = acc @ (if related_concepts_of env sid e = [] then []
            else [structural_info e (related_concepts_of env sid e)])"
    using neo4j_step_result[of env sid acc w e] s by simp
  then show ?case
    using s Cons.IH[of acc' w'] by (simp add: graph_sentences_def)
qed

lemma collect_snippets:
  assumes "collect_context_snippets env sid prompt w = (Inr (names, snippets), w')"
  shows "snippets =
      (case fst (get_summary env sid w) of
         Inr (Some (t, n)) \<Rightarrow> if t = [] then [] else [t]
       | other \<Rightarrow> [])
      @ concat (map (\<lambda>e. map truncate_doc (similarity_hits env sid e)) names)
      @ (if neo4j_manager env \<and> graph_sentences env sid names \<noteq> []
         then [join '' '' (graph_sentences env sid names)] else [])"
proof -
  let ?w1 = "log_call (Sqlite_get_summary sid) w"
  obtain summary where s: "get_summary env sid w = (Inr summary, ?w1)"
    using assms
    by (cases "sqlite_outcome env (Sqlite_get_summary sid)")
      (simp_all add: collect_context_snippets_def get_summary_result)
  let ?s0 = "case summary of None \<Rightarrow> [] | Some (t, n) \<Rightarrow> if t = [] then [] else [t]"
  have s0: "(case fst (get_summary env sid w) of
         Inr (Some (t, n)) \<Rightarrow> if t = [] then [] else [t]
       | other \<Rightarrow> []) = ?s0"
    unfolding s by (simp split: option.splits)
  obtain ns w2 where e: "extract_entities_with_gpt env (Some prompt) ?w1 = (ns, w2)"
    by (metis prod.exhaust)
  show ?thesis
  proof (cases "ns = []")
    case True
    then have "names = []" "snippets = ?s0"
      using assms s e by (simp_all add: collect_context_snippets_def Let_def)
    then show ?thesis
      unfolding s0 by (simp add: graph_sentences_def)
  next
    case False
    obtain s1 w3 where c: "foldl (chroma_step env sid) (?s0, w2) ns = (s1, w3)"
      by (cases "foldl (chroma_step env sid) (?s0, w2) ns") auto
    have s1: "s1 = ?s0 @ concat (map (\<lambda>e. map truncate_doc (similarity_hits env sid e)) ns)"
      using foldl_chroma_step[of env sid ?s0 w2 ns] c by simp
    obtain parts w4 where n: "foldl (neo4j_step env sid) ([], w3) ns = (parts, w4)"
      by (metis prod.exhaust)
    have parts: "parts = graph_sentences env sid ns"
      using foldl_neo4j_step[of env sid "[]" w3 ns] n by simp
    have "names = ns"
      using assms s e c n False
      by (simp add: collect_context_snippets_def Let_def split: if_splits)
    moreover have "snippets = s1 @ (if neo4j_manager env \<and> parts \<noteq> []
         then [join '' '' parts] else [])"
      using assms s e c n False
      by (simp add: collect_context_snippets_def Let_def split: if_splits)
    ultimately show ?thesis
      unfolding s0 s1 parts by simp
  qed
qed

text \<open>
  Claim C9. Whenever the retrieval of \<^verbatim>\<open>build_augmented_prompt\<close> (lines 117 to 161)
  completes, its candidate snippet list is: the stored summary text if there is a
  non-empty one; then, for each extracted entity in order, every document that the
  similarity index returned for that entity, passed through \<open>truncate_doc\<close>; then the
  joined graph sentences if there is a graph manager and at least one sentence. No
  similarity hit enters the list in any other form. \<open>truncate_doc\<close> turns a document of
  more than 300 characters into its first 300 characters followed by \<open>...\<close>, and leaves
  a document of at most 300 characters unchanged.
\<close>

theorem candidate_snippets_truncated:
  "(\<forall>names snippets w'.
      collect_context_snippets env sid prompt w = (Inr (names, snippets), w') \<longrightarrow>
      snippets =
        (case fst (get_summary env sid w) of
           Inr (Some (t, n)) \<Rightarrow> if t = [] then [] else [t]
         | other \<Rightarrow> [])
        @ concat (map (\<lambda>e. map truncate_doc (similarity_hits env sid e)) names)
        @ (if neo4j_manager env \<and> graph_sentences env sid names \<noteq> []
           then [join '' '' (graph_sentences env sid names)] else []))
   \<and> (\<forall>doc. (300 < length doc \<longrightarrow> truncate_doc doc = take 300 doc @ ''...'')
           \<and> (length doc \<le> 300 \<longrightarrow> truncate_doc doc = doc))"
proof (intro conjI allI impI)
  fix names snippets w'
  assume "collect_context_snippets env sid prompt w = (Inr (names, snippets), w')"
  then show "snippets =
        (case fst (get_summary env sid w) of
           Inr (Some (t, n)) \<Rightarrow> if t = [] then [] else [t]
         | other \<Rightarrow> [])
        @ concat (map (\<lambda>e. map truncate_doc (similarity_hits env sid e)) names)
        @ (if neo4j_manager env \<and> graph_sentences env sid names \<noteq> []
           then [join '' '' (graph_sentences env sid names)] else [])"
    by (rule collect_snippets)
next
  fix doc :: string
  assume "300 < length doc"
  then show "truncate_doc doc = take 300 doc @ ''...''"
    by (rule truncate_doc_long)
next
  fix doc :: string
  assume "length doc \<le> 300"
  then show "truncate_doc doc = doc"
    by (rule truncate_doc_short)
qed

theorem candidate_snippets_truncated_witness:
  "similarity_hits entity_env ''s1'' ''ia'' = [replicate 400 (CHR ''a'')]
   \<and> fst (collect_context_snippets entity_env ''s1'' ''hola'' empty_world)
       = Inr ([''ia''], [replicate 300 (CHR ''a'') @ ''...''])"
proof -
  have h: "similarity_hits entity_env ''s1'' ''ia'' = [replicate 400 (CHR ''a'')]"
    by (simp add: similarity_hits_def entity_env_def long_doc_env_def working_env_def)
  have g: "graph_sentences entity_env ''s1'' [''ia''] = []"
    by (simp add: graph_sentences_def related_concepts_of_def entity_env_def
        long_doc_env_def working_env_def)
  have s: "fst (get_summary entity_env ''s1'' empty_world) = Inr None"
    by (simp add: get_summary_result entity_env_def long_doc_env_def working_env_def
        empty_world_def)
  have x: "fst (extract_entities_with_gpt entity_env (Some ''hola'')
                  (log_call (Sqlite_get_summary ''s1'') empty_world)) = [''ia'']"
    by (simp add: extract_entities_with_gpt_def extract_entities_try_def get_provider_def
        openai_internal_call extraction_prompt_nonempty content_strip_def parse_entities_def
        strip_def py_isspace_def startswith_def dq_def entity_env_def long_doc_env_def
        working_env_def Let_def)
  have o: "sqlite_outcome entity_env (Sqlite_get_summary ''s1'') = SqlOk"
    by (simp add: entity_env_def long_doc_env_def working_env_def)
  have "\<exists>snippets. fst (collect_context_snippets entity_env ''s1'' ''hola'' empty_world)
          = Inr ([''ia''], snippets)"
    using x o
    by (simp add: collect_context_snippets_def get_summary_result Let_def split_beta)
  then obtain snippets where
    f: "fst (collect_context_snippets entity_env ''s1'' ''hola'' empty_world)
          = Inr ([''ia''], snippets)"
    by blast
  have c: "collect_context_snippets entity_env ''s1'' ''hola'' empty_world
      = (Inr ([''ia''], snippets),
         snd (collect_context_snippets entity_env ''s1'' ''hola'' empty_world))"
    using f by (simp add: prod_eq_iff)
  note t = candidate_snippets_truncated[of entity_env "''s1''" "''hola''" empty_world,
      THEN conjunct1, rule_format, OF c]
  have "snippets = [replicate 300 (CHR ''a'') @ ''...'']"
    using t by (simp add: h g s truncate_doc_def)
  then show ?thesis
    using h f by simp
qed

section \<open>Persistence of a turn\<close>

text \<open>
  Context assembly, every model call and every tool round leave the stores and the
  configuration untouched and issue no persistence call.
\<close>

lemma extract_fst: "fst (extract_entities_with_gpt env t w) = extracted_entities env t"
proof (cases "get_provider env ''openai'' ''gpt-3.5-turbo''")
  case None
  then show ?thesis
    by (simp add: extract_entities_with_gpt_def extracted_entities_def)
next
  case (Some p)
  show ?thesis
    unfolding extracted_entities_def
    by (simp only: extract_entities_result[OF Some])
qed

lemma no_persistence_refl [simp]: "no_persistence w w"
  by (simp add: no_persistence_def)

lemma no_persistence_trans:
  assumes "no_persistence w w'" and "no_persistence w' w''"
  shows "no_persistence w w''"
proof -
  have "issues (\<lambda>e. \<not> is_persist e) w w''"
    using assms unfolding no_persistence_def by (meson issues_trans)
  moreover have "same_stores w w''"
    using assms unfolding no_persistence_def by (meson same_stores_trans)
  moreover have "config w'' = config w"
    using assms unfolding no_persistence_def by simp
  ultimately show ?thesis
    unfolding no_persistence_def by simp
qed

lemma no_persistence_log: "\<not> is_persist e \<Longrightarrow> no_persistence w (log_call e w)"
  by (simp add: no_persistence_def issues_log)

lemma model_call_not_persist: "is_model_call e \<Longrightarrow> \<not> is_persist e"
  by (cases e) simp_all

lemma gpt35_not_persist: "addressed_to_gpt35 e \<Longrightarrow> \<not> is_persist e"
  by (cases e) simp_all

lemma generate_response_quiet:
  "no_persistence w (snd (generate_response env p prompt h tools t m w))"
proof -
  have "issues (\<lambda>e. \<not> is_persist e) w (snd (generate_response env p prompt h tools t m w))"
    by (rule issues_mono[OF generate_response_issues]) (rule model_call_not_persist)
  then show ?thesis
    by (simp add: no_persistence_def generate_response_same_stores)
qed

lemma extract_keeps_config: "config (snd (extract_entities_with_gpt env t w)) = config w"
proof -
  define x where "x = snd (extract_entities_with_gpt env t w)"
  have id: "w\<lparr>config := config w\<rparr> = w"
    by simp
  have "extract_entities_with_gpt env t w
      = (fst (extract_entities_with_gpt env t w), x\<lparr>config := config w\<rparr>)"
    using extract_config[where w = w and c = "config w" and env = env and t = t]
    unfolding id x_def .
  then have "x = x\<lparr>config := config w\<rparr>"
    unfolding x_def by (metis snd_conv)
  then have "config x = config (x\<lparr>config := config w\<rparr>)"
    by (rule arg_cong)
  then show ?thesis
    unfolding x_def by simp
qed

lemma synthesize_keeps_config: "config (snd (synthesize_context_with_gpt env s w)) = config w"
proof -
  define x where "x = snd (synthesize_context_with_gpt env s w)"
  have id: "w\<lparr>config := config w\<rparr> = w"
    by simp
  have "synthesize_context_with_gpt env s w
      = (fst (synthesize_context_with_gpt env s w), x\<lparr>config := config w\<rparr>)"
    using synthesize_config[where w = w and c = "config w" and env = env and snippets = s]
    unfolding id x_def .
  then have "x = x\<lparr>config := config w\<rparr>"
    unfolding x_def by (metis snd_conv)
  then have "config x = config (x\<lparr>config := config w\<rparr>)"
    by (rule arg_cong)
  then show ?thesis
    unfolding x_def by simp
qed

lemma extract_quiet: "no_persistence w (snd (extract_entities_with_gpt env t w))"
proof -
  have "issues (\<lambda>e. \<not> is_persist e) w (snd (extract_entities_with_gpt env t w))"
    by (rule issues_mono[OF extract_issues]) (rule gpt35_not_persist)
  then show ?thesis
    by (simp add: no_persistence_def extract_same_stores extract_keeps_config)
qed

lemma synthesize_quiet: "no_persistence w (snd (synthesize_context_with_gpt env s w))"
proof -
  have "issues (\<lambda>e. \<not> is_persist e) w (snd (synthesize_context_with_gpt env s w))"
    by (rule issues_mono[OF synthesize_issues]) (rule gpt35_not_persist)
  then show ?thesis
    by (simp add: no_persistence_def synthesize_same_stores synthesize_keeps_config)
qed

lemma get_recent_turns_quiet: "no_persistence w (snd (get_recent_turns env sid n w))"
  by (simp add: get_recent_turns_def Let_def no_persistence_log)

lemma get_summary_quiet: "no_persistence w (snd (get_summary env sid w))"
  by (simp add: get_summary_result no_persistence_log)

lemma search_similar_quiet: "no_persistence w (snd (search_similar env q n sid w))"
  by (simp add: search_similar_def Let_def no_persistence_log
      split: query_outcome.splits option.splits list.splits)

lemma get_related_entities_quiet:
  "no_persistence w (snd (get_related_entities env e sid n w))"
  by (simp add: get_related_entities_def Let_def no_persistence_log)

lemma chroma_step_quiet: "no_persistence w (snd (chroma_step env sid (acc, w) e))"
proof -
  have "snd (chroma_step env sid (acc, w) e) = snd (search_similar env (search_query e) 5 sid w)"
    by (simp add: chroma_step_def split: prod.splits option.splits list.splits)
  then show ?thesis
    by (simp add: search_similar_quiet)
qed

lemma neo4j_step_quiet: "no_persistence w (snd (neo4j_step env sid (acc, w) e))"
proof -
  have "snd (neo4j_step env sid (acc, w) e) = snd (get_related_entities env e sid 5 w)"
    by (simp add: neo4j_step_def split: prod.splits)
  then show ?thesis
    by (simp add: get_related_entities_quiet)
qed

lemma foldl_quiet:
  assumes "\<And>acc w e. no_persistence w (snd (f (acc, w) e))"
  shows "no_persistence w (snd (foldl f (acc, w) es))"
proof (induction es arbitrary: acc w)
  case Nil
  then show ?case by simp
next
  case (Cons e es)
  have 1: "no_persistence w (snd (f (acc, w) e))"
    by (rule assms)
  have 2: "no_persistence (snd (f (acc, w) e))
             (snd (foldl f (fst (f (acc, w) e), snd (f (acc, w) e)) es))"
    by (rule Cons.IH)
  show ?case
    using no_persistence_trans[OF 1 2] by simp
qed

lemma collect_quiet:
  "no_persistence w (snd (collect_context_snippets env sid prompt w))"
proof -
  let ?w1 = "snd (get_summary env sid w)"
  have 1: "no_persistence w ?w1"
    by (rule get_summary_quiet)
  show ?thesis
  proof (cases "fst (get_summary env sid w)")
    case (Inl e)
    then have "snd (collect_context_snippets env sid prompt w) = ?w1"
      by (simp add: collect_context_snippets_def split_beta)
    then show ?thesis using 1 by simp
  next
    case (Inr summary)
    define s0 where "s0 = (case summary of None \<Rightarrow> []
        | Some (summary_text, n) \<Rightarrow> if summary_text = [] then [] else [summary_text])"
    define names where "names = fst (extract_entities_with_gpt env (Some prompt) ?w1)"
    define w2 where "w2 = snd (extract_entities_with_gpt env (Some prompt) ?w1)"
    define s1 where "s1 = fst (foldl (chroma_step env sid) (s0, w2) names)"
    define w3 where "w3 = snd (foldl (chroma_step env sid) (s0, w2) names)"
    define w4 where "w4 = snd (foldl (neo4j_step env sid) ([], w3) names)"
    have 2: "no_persistence ?w1 w2"
      unfolding w2_def by (rule extract_quiet)
    have 3: "no_persistence w2 w3"
      unfolding w3_def by (rule foldl_quiet) (rule chroma_step_quiet)
    have 4: "no_persistence w3 w4"
      unfolding w4_def by (rule foldl_quiet) (rule neo4j_step_quiet)
    have "snd (collect_context_snippets env sid prompt w) = w2
        \<or> snd (collect_context_snippets env sid prompt w) = w3
        \<or> snd (collect_context_snippets env sid prompt w) = w4"
      using Inr
      unfolding w4_def w3_def s1_def w2_def names_def s0_def
      by (simp add: collect_context_snippets_def split_beta Let_def)
    moreover have "no_persistence w w2"
      using 1 2 by (rule no_persistence_trans)
    moreover have "no_persistence w w3"
      using \<open>no_persistence w w2\<close> 3 by (rule no_persistence_trans)
    moreover have "no_persistence w w4"
      using \<open>no_persistence w w3\<close> 4 by (rule no_persistence_trans)
    ultimately show ?thesis
      by (elim disjE) simp_all
  qed
qed

lemma collect_names:
  "collect_context_snippets env sid prompt w = (Inr (names, snippets), w') \<Longrightarrow>
     names = extracted_entities env (Some prompt)"
  by (auto simp: collect_context_snippets_def split_beta Let_def extract_fst
      split: sum.splits if_splits)


lemma build_quiet:
  "no_persistence w (snd (build_augmented_prompt env sid prompt directives w))"
proof -
  let ?c = "collect_context_snippets env sid prompt w"
  have 1: "no_persistence w (snd ?c)"
    by (rule collect_quiet)
  show ?thesis
  proof (cases "fst ?c")
    case (Inl e)
    then have "snd (build_augmented_prompt env sid prompt directives w) = snd ?c"
      by (simp add: build_augmented_prompt_def split_beta)
    then show ?thesis using 1 by simp
  next
    case (Inr ns)
    define uniq where "uniq = unique_snippets (snd ns)"
    define w2 where "w2 = snd (if uniq = [] then ([], snd ?c)
                               else synthesize_context_with_gpt env uniq (snd ?c))"
    have 2: "no_persistence (snd ?c) w2"
      unfolding w2_def by (simp add: synthesize_quiet)
    have 3: "no_persistence w2 (snd (get_recent_turns env sid 10 w2))"
      by (rule get_recent_turns_quiet)
    have "snd (build_augmented_prompt env sid prompt directives w)
        = snd (get_recent_turns env sid 10 w2)"
      using Inr unfolding w2_def uniq_def
      by (simp add: build_augmented_prompt_def split_beta Let_def)
    then show ?thesis
      using no_persistence_trans[OF no_persistence_trans[OF 1 2] 3] by simp
  qed
qed

lemma build_entities:
  assumes "build_augmented_prompt env sid prompt directives w = (Inr ctx, w')"
  shows "ctx_entities ctx = extracted_entities env (Some prompt)"
proof -
  obtain names snippets w1 where
    c: "collect_context_snippets env sid prompt w = (Inr (names, snippets), w1)"
    using assms
    by (auto simp: build_augmented_prompt_def split: prod.splits sum.splits)
  have "ctx_entities ctx = names"
    using assms c by (auto simp: build_augmented_prompt_def split_beta Let_def)
  then show ?thesis
    using collect_names[OF c] by simp
qed

lemma execute_tool_quiet: "no_persistence w (snd (execute_tool env pl tool kwargs w))"
  by (simp add: execute_tool_def Let_def no_persistence_log split: sum.splits)

lemma call_execute_tool_quiet:
  "no_persistence w (snd (call_execute_tool env pl tool args w))"
  by (simp add: call_execute_tool_def split_beta execute_tool_quiet split: json.splits)

lemma run_tool_calls_quiet:
  "no_persistence w (snd (snd (run_tool_calls env tcs h w)))"
proof (induction tcs arbitrary: h w)
  case Nil
  then show ?case by simp
next
  case (Cons tc rest)
  define arguments where "arguments = (case json_loads env (tc_arguments tc) of
                         None \<Rightarrow> JObj [] | Some a \<Rightarrow> a)"
  show ?case
  proof (cases "find_plugin_for_tool env (tc_name tc)")
    case None
    then show ?thesis
      by (simp add: Let_def Cons.IH)
  next
    case (Some pl)
    let ?r = "call_execute_tool env pl (tc_name tc) arguments w"
    have 1: "no_persistence w (snd ?r)"
      by (rule call_execute_tool_quiet)
    show ?thesis
    proof (cases "fst ?r")
      case (Inl e)
      then have "snd (snd (run_tool_calls env (tc # rest) h w)) = snd ?r"
        using Some unfolding arguments_def by (simp add: Let_def split_beta)
      then show ?thesis using 1 by simp
    next
      case (Inr res)
      then have "snd (snd (run_tool_calls env (tc # rest) h w))
          = snd (snd (run_tool_calls env rest
               (h @ [ToolMessage (tc_id tc) (tc_name tc) (json_dumps env res)]) (snd ?r)))"
        using Some unfolding arguments_def by (simp add: Let_def split_beta)
      then show ?thesis
        using no_persistence_trans[OF 1 Cons.IH] by simp
    qed
  qed
qed

lemma tool_round_quiet:
  "no_persistence (ls_world st) (ls_world (tool_round env p tools temp mt st))"
proof (cases "ls_response st")
  case None
  then show ?thesis by (simp add: tool_round_def)
next
  case (Some r)
  show ?thesis
  proof (cases r)
    case (DictResponse a b)
    then show ?thesis using Some by (simp add: tool_round_def)
  next
    case (MessageObject m)
    show ?thesis
    proof (cases "msg_tool_calls m")
      case None
      then show ?thesis using Some MessageObject by (simp add: tool_round_def)
    next
      case (Some tcs)
      let ?r = "run_tool_calls env tcs (ls_history st @ [MessageDump m]) (ls_world st)"
      have 1: "no_persistence (ls_world st) (snd (snd ?r))"
        by (rule run_tool_calls_quiet)
      show ?thesis
      proof (cases "fst ?r")
        case (Some e)
        then have "ls_world (tool_round env p tools temp mt st) = snd (snd ?r)"
          using \<open>ls_response st = Some r\<close> MessageObject \<open>msg_tool_calls m = Some tcs\<close>
          by (simp add: tool_round_def split_beta)
        then show ?thesis using 1 by simp
      next
        case None
        then have "ls_world (tool_round env p tools temp mt st)
            = snd (generate_response env p None (fst (snd ?r)) tools (Some temp) (Some mt)
                     (snd (snd ?r)))"
          using \<open>ls_response st = Some r\<close> MessageObject \<open>msg_tool_calls m = Some tcs\<close>
          by (simp add: tool_round_def split_beta)
        then show ?thesis
          using no_persistence_trans[OF 1 generate_response_quiet] by simp
      qed
    qed
  qed
qed

lemma tool_call_loop_quiet:
  assumes "tool_call_loop env p tools temp mt st = Some st'"
  shows "no_persistence (ls_world st) (ls_world st') \<and> \<not> loop_continues st'"
proof (rule tool_call_loop.raw_induct[where
      P = "\<lambda>env p tools temp mt st st'.
             no_persistence (ls_world st) (ls_world st') \<and> \<not> loop_continues st'",
      OF _ assms])
  fix f env p tools temp mt st st'
  assume IH: "\<And>env p tools temp mt st st'. f env p tools temp mt st = Some st' \<Longrightarrow>
      no_persistence (ls_world st) (ls_world st') \<and> \<not> loop_continues st'"
    and eq: "(if loop_continues st
              then f env p tools temp mt (tool_round env p tools temp mt st)
              else Some st) = Some st'"
  show "no_persistence (ls_world st) (ls_world st') \<and> \<not> loop_continues st'"
  proof (cases "loop_continues st")
    case True
    then have "f env p tools temp mt (tool_round env p tools temp mt st) = Some st'"
      using eq by simp
    then have "no_persistence (ls_world (tool_round env p tools temp mt st)) (ls_world st')
        \<and> \<not> loop_continues st'"
      by (rule IH)
    then show ?thesis
      using no_persistence_trans[OF tool_round_quiet] by blast
  next
    case False
    then show ?thesis using eq by simp
  qed
qed


lemma extract_stores:
  "sessions_tbl (snd (extract_entities_with_gpt env t w)) = sessions_tbl w"
  "session_info_tbl (snd (extract_entities_with_gpt env t w)) = session_info_tbl w"
  "redis_lists (snd (extract_entities_with_gpt env t w)) = redis_lists w"
  "chroma_docs (snd (extract_entities_with_gpt env t w)) = chroma_docs w"
  "graph_writes (snd (extract_entities_with_gpt env t w)) = graph_writes w"
  using extract_same_stores[of w env t] by (simp_all add: same_stores_def)

lemma extract_trace:
  "\<exists>evs. trace (snd (extract_entities_with_gpt env t w)) = trace w @ evs
         \<and> list_all addressed_to_gpt35 evs"
  using extract_issues[of w env t] by (simp add: issues_iff)

lemma add_turn_trace:
  "trace (add_turn env sid turn w)
     = trace w @ (if redis_client env then [Redis_rpush (get_session_key sid) turn] else [])"
  by (simp add: add_turn_def Let_def)

lemma add_entry_trace:
  "trace (add_entry env sid txt tid role w)
     = trace w @ (if chroma_collection env then [Chroma_add sid txt tid role] else [])"
  by (simp add: add_entry_def Let_def)

lemma add_message_trace:
  "trace (add_message_and_entities env sid tid role txt es w)
     = trace w @ (if neo4j_driver env then [Neo4j_create_message sid tid role txt es] else [])"
  by (simp add: add_message_and_entities_def Let_def)

lemma save_turn_trace:
  "\<exists>evs. list_all addressed_to_gpt35 evs
     \<and> trace (save_turn env sid prompt t uid aid es w) = trace w
         @ (if redis_client env
            then [Redis_rpush (get_session_key sid) (Turn ''user'' (Some prompt)),
                  Redis_rpush (get_session_key sid) (Turn ''assistant'' t)]
            else [])
         @ (if chroma_collection env then [Chroma_add sid t aid ''assistant''] else [])
         @ (if neo4j_manager env
            then evs @
              (if neo4j_driver env
               then [Neo4j_create_message sid uid ''user'' (Some prompt) (misc_entities es),
                     Neo4j_create_message sid aid ''assistant'' t
                       (misc_entities (extracted_entities env t))]
               else [])
            else [])"
proof -
  define w3 where "w3 = add_entry env sid t aid ''assistant''
      (add_turn env sid (Turn ''assistant'' t) (add_turn env sid (Turn ''user'' (Some prompt)) w))"
  have t3: "trace w3 = trace w
         @ (if redis_client env
            then [Redis_rpush (get_session_key sid) (Turn ''user'' (Some prompt)),
                  Redis_rpush (get_session_key sid) (Turn ''assistant'' t)]
            else [])
         @ (if chroma_collection env then [Chroma_add sid t aid ''assistant''] else [])"
    unfolding w3_def by (simp add: add_turn_trace add_entry_trace)
  show ?thesis
  proof (cases "neo4j_manager env")
    case False
    then have "save_turn env sid prompt t uid aid es w = w3"
      unfolding w3_def by (simp add: save_turn_def Let_def)
    then show ?thesis
      using t3 False by (intro exI[of _ "[]"]) simp
  next
    case True
    obtain evs where e: "trace (snd (extract_entities_with_gpt env t w3)) = trace w3 @ evs"
        "list_all addressed_to_gpt35 evs"
      using extract_trace[of env t w3] by blast
    have "save_turn env sid prompt t uid aid es w
        = add_message_and_entities env sid aid ''assistant'' t
            (misc_entities (extracted_entities env t))
            (add_message_and_entities env sid uid ''user'' (Some prompt) (misc_entities es)
               (snd (extract_entities_with_gpt env t w3)))"
      using True unfolding w3_def
      by (simp add: save_turn_def Let_def split_beta extract_fst)
    then have "trace (save_turn env sid prompt t uid aid es w) = trace w3 @ evs
         @ (if neo4j_driver env
               then [Neo4j_create_message sid uid ''user'' (Some prompt) (misc_entities es),
                     Neo4j_create_message sid aid ''assistant'' t
                       (misc_entities (extracted_entities env t))]
               else [])"
      using e(1) by (simp add: add_message_trace)
    then show ?thesis
      using t3 True e(2) by auto
  qed
qed

lemma filter_gpt35: "list_all addressed_to_gpt35 evs \<Longrightarrow> filter is_persist evs = []"
  by (auto simp: filter_empty_conv list_all_iff dest: gpt35_not_persist)

lemma gpt35_not_plugin: "addressed_to_gpt35 e \<Longrightarrow> \<not> is_plugin_call e"
  by (cases e) simp_all

lemma save_turn_sqlite:
  "sessions_tbl (save_turn env sid prompt t uid aid es w) = sessions_tbl w"
  "session_info_tbl (save_turn env sid prompt t uid aid es w) = session_info_tbl w"
  by (simp_all add: save_turn_def add_turn_def add_entry_def add_message_and_entities_def
      Let_def split_beta extract_stores)

lemma save_turn_redis:
  assumes "redis_client env"
      and "\<not> redis_error env (Redis_rpush (get_session_key sid) (Turn ''user'' (Some prompt)))"
      and "\<not> redis_error env (Redis_rpush (get_session_key sid) (Turn ''assistant'' t))"
  shows "redis_lists (save_turn env sid prompt t uid aid es w)
           = (redis_lists w)(get_session_key sid :=
                redis_lists w (get_session_key sid)
                @ [Turn ''user'' (Some prompt), Turn ''assistant'' t])"
  using assms
  by (simp add: save_turn_def add_turn_def add_entry_def add_message_and_entities_def
      Let_def split_beta extract_stores)

lemma save_turn_chroma:
  "chroma_docs (save_turn env sid prompt t uid aid es w)
     = chroma_docs w
       @ (if chroma_collection env \<and> \<not> chroma_raises env (Chroma_add sid t aid ''assistant'')
          then [ChromaEntry aid t sid ''assistant''] else [])"
  by (simp add: save_turn_def add_turn_def add_entry_def add_message_and_entities_def
      Let_def split_beta extract_stores)

lemma finish_request_answered:
  assumes "finish_request env sid prompt es u1 u2 st = (Inr (ResponseResult t, tasks), w')"
  shows "w' = log_call (Redis_llen (get_session_key sid))
                (save_turn env sid prompt t (sid @ ''_'' @ u1) (sid @ ''_'' @ u2) es
                   (ls_world st))"
    and "redis_client env"
  using assms
  by (auto simp: finish_request_def client_llen_def Let_def
      split: option.splits sum.splits if_splits)

lemma update_llm_settings_fields [simp]:
  "trace (update_llm_settings a b c d w) = trace w"
  "sessions_tbl (update_llm_settings a b c d w) = sessions_tbl w"
  "session_info_tbl (update_llm_settings a b c d w) = session_info_tbl w"
  "redis_lists (update_llm_settings a b c d w) = redis_lists w"
  "chroma_docs (update_llm_settings a b c d w) = chroma_docs w"
  "graph_writes (update_llm_settings a b c d w) = graph_writes w"
  by (simp_all add: update_llm_settings_def Let_def)

lemma update_llm_settings_config:
  "config (update_llm_settings (Some (provider_name s)) (Some (model_name s))
             (Some (temperature s)) (Some (max_tokens s)) w)
     = (config w)\<lparr>provider_name := provider_name s, model_name := model_name s,
                   temperature := temperature s, max_tokens := max_tokens s\<rparr>"
  by (simp add: update_llm_settings_def Let_def)

lemma handle_answered:
  assumes "handle_user_request env sid prompt settings u1 u2 w0
             = Some (Inr (ResponseResult t, tasks), w')"
  shows "\<exists>w3. issues (\<lambda>e. \<not> is_persist e) w0 w3 \<and> same_stores w0 w3
           \<and> w' = log_call (Redis_llen (get_session_key sid))
                    (save_turn env sid prompt t (sid @ ''_'' @ u1) (sid @ ''_'' @ u2)
                       (extracted_entities env (Some prompt)) w3)
           \<and> redis_client env"
proof -
  define w1 where "w1 = update_llm_settings (Some (provider_name settings))
                 (Some (model_name settings)) (Some (temperature settings))
                 (Some (max_tokens settings)) w0"
  define b where "b = build_augmented_prompt env sid prompt (analyze_user_input env prompt) w1"
  have q1: "no_persistence w1 (snd b)"
    unfolding b_def by (rule build_quiet)
  obtain ctx where c: "fst b = Inr ctx"
    using assms unfolding b_def w1_def
    by (cases "fst (build_augmented_prompt env sid prompt (analyze_user_input env prompt)
          (update_llm_settings (Some (provider_name settings))
                 (Some (model_name settings)) (Some (temperature settings))
                 (Some (max_tokens settings)) w0))")
      (auto simp: handle_user_request_def Let_def split_beta)
  have bb: "b = (Inr ctx, snd b)"
    using c by (simp add: prod_eq_iff)
  have es: "ctx_entities ctx = extracted_entities env (Some prompt)"
    using bb unfolding b_def by (rule build_entities)
  obtain p where p: "get_provider env (provider_name (config (snd b)))
      (model_name (config (snd b))) = Some p"
    using assms c unfolding b_def w1_def
    by (auto simp: handle_user_request_def Let_def split_beta split: option.splits)
  define g where "g = generate_response env p (Some prompt)
      (RoleContent ''system'' (Some (ctx_system_prompt ctx)) # map entry_of_turn (ctx_history ctx))
      (ctx_tools ctx) (Some (temperature (config (snd b)))) (Some (max_tokens (config (snd b))))
      (snd b)"
  have q2: "no_persistence (snd b) (snd g)"
    unfolding g_def by (rule generate_response_quiet)
  obtain st where l: "tool_call_loop env p (ctx_tools ctx) (temperature (config (snd b)))
      (max_tokens (config (snd b)))
      \<lparr>ls_response = Some (fst (fst g)), ls_history = snd (fst g), ls_world = snd g,
        ls_raised = None\<rparr> = Some st"
    and f: "finish_request env sid prompt (ctx_entities ctx) u1 u2 st
      = (Inr (ResponseResult t, tasks), w')"
    using assms c p unfolding g_def b_def w1_def
    by (auto simp: handle_user_request_def Let_def split_beta split: option.splits)
  have q3: "no_persistence (snd g) (ls_world st)"
    using tool_call_loop_quiet[OF l] by simp
  have q: "no_persistence w1 (ls_world st)"
    using no_persistence_trans[OF no_persistence_trans[OF q1 q2] q3] .
  have "issues (\<lambda>e. \<not> is_persist e) w0 (ls_world st)"
    using q unfolding no_persistence_def w1_def issues_def new_calls_def by simp
  moreover have "same_stores w0 (ls_world st)"
    using q unfolding no_persistence_def w1_def same_stores_def by simp
  ultimately show ?thesis
    using finish_request_answered[OF f] es by auto
qed


lemma save_turn_redis_lists:
  "redis_lists (save_turn env sid prompt t uid aid es w)
     = (redis_lists w)(get_session_key sid :=
          redis_lists w (get_session_key sid)
          @ (if redis_client env
                \<and> \<not> redis_error env
                      (Redis_rpush (get_session_key sid) (Turn ''user'' (Some prompt)))
             then [Turn ''user'' (Some prompt)] else [])
          @ (if redis_client env
                \<and> \<not> redis_error env (Redis_rpush (get_session_key sid) (Turn ''assistant'' t))
             then [Turn ''assistant'' t] else []))"
  by (simp add: save_turn_def add_turn_def add_entry_def add_message_and_entities_def
      Let_def split_beta extract_stores)

lemma save_turn_graph:
  "graph_writes (save_turn env sid prompt t uid aid es w)
     = graph_writes w
       @ (if neo4j_manager env \<and> neo4j_driver env
             \<and> \<not> neo4j_raises env
                   (Neo4j_create_message sid uid ''user'' (Some prompt) (misc_entities es))
          then [Neo4j_create_message sid uid ''user'' (Some prompt) (misc_entities es)]
          else [])
       @ (if neo4j_manager env \<and> neo4j_driver env
             \<and> \<not> neo4j_raises env
                   (Neo4j_create_message sid aid ''assistant'' t
                      (misc_entities (extracted_entities env t)))
          then [Neo4j_create_message sid aid ''assistant'' t
                  (misc_entities (extracted_entities env t))]
          else [])"
  by (simp add: save_turn_def add_turn_def add_entry_def add_message_and_entities_def
      Let_def split_beta extract_stores extract_fst)

text \<open>How a request that needs no tool round unfolds, and two examples.\<close>

lemma loop_stops: "\<not> loop_continues st \<Longrightarrow> tool_call_loop env p tools t m st = Some st"
  by (subst tool_call_loop.simps) simp

lemma collect_returns:
  "sqlite_outcome env (Sqlite_get_summary sid) \<noteq> SqlConnectError \<Longrightarrow>
     \<exists>ns. fst (collect_context_snippets env sid prompt w) = Inr ns"
  by (auto simp: collect_context_snippets_def get_summary_result split_beta Let_def
      split: sqlite_outcome.splits)

lemma build_returns:
  assumes "sqlite_outcome env (Sqlite_get_summary sid) \<noteq> SqlConnectError"
  shows "\<exists>ctx. fst (build_augmented_prompt env sid prompt d w) = Inr ctx"
proof -
  obtain ns where "fst (collect_context_snippets env sid prompt w) = Inr ns"
    using collect_returns[OF assms] by blast
  then show ?thesis
    by (simp add: build_augmented_prompt_def split_beta Let_def)
qed

lemma handle_user_request_no_tools:
  assumes b: "build_augmented_prompt env sid prompt (analyze_user_input env prompt)
                (update_llm_settings (Some (provider_name settings))
                   (Some (model_name settings)) (Some (temperature settings))
                   (Some (max_tokens settings)) w0) = (Inr ctx, w2)"
      and p: "get_provider env (provider_name settings) (model_name settings) = Some p"
      and g: "generate_response env p (Some prompt)
                (RoleContent ''system'' (Some (ctx_system_prompt ctx))
                 # map entry_of_turn (ctx_history ctx))
                (ctx_tools ctx) (Some (temperature settings)) (Some (max_tokens settings)) w2
              = ((r, h), w3)"
      and l: "loop_test (Some r) \<noteq> Inr True"
  shows "handle_user_request env sid prompt settings u1 u2 w0
           = Some (finish_request env sid prompt (ctx_entities ctx) u1 u2
                     \<lparr>ls_response = Some r, ls_history = h, ls_world = w3,
                      ls_raised = None\<rparr>)"
proof -
  let ?w1 = "update_llm_settings (Some (provider_name settings))
                   (Some (model_name settings)) (Some (temperature settings))
                   (Some (max_tokens settings)) w0"
  have "no_persistence ?w1 w2"
    using build_quiet[of ?w1 env sid prompt "analyze_user_input env prompt"] b by simp
  then have "config w2 = config ?w1"
    by (simp add: no_persistence_def)
  then have c: "provider_name (config w2) = provider_name settings"
      "model_name (config w2) = model_name settings"
      "temperature (config w2) = temperature settings"
      "max_tokens (config w2) = max_tokens settings"
    by (simp_all add: update_llm_settings_config)
  have s: "tool_call_loop env p (ctx_tools ctx) (temperature settings) (max_tokens settings)
      \<lparr>ls_response = Some r, ls_history = h, ls_world = w3, ls_raised = None\<rparr>
      = Some \<lparr>ls_response = Some r, ls_history = h, ls_world = w3, ls_raised = None\<rparr>"
    by (rule loop_stops) (simp add: loop_continues_def l)
  show ?thesis
    by (simp add: handle_user_request_def Let_def b c p g s)
qed

lemma finish_request_result:
  assumes "msg_tool_calls m = None"
      and "redis_client env"
      and "\<not> redis_error env (Redis_llen (get_session_key sid))"
  shows "finish_request env sid prompt es u1 u2
           \<lparr>ls_response = Some (MessageObject m), ls_history = h, ls_world = w,
            ls_raised = None\<rparr>
         = (Inr (ResponseResult (msg_content m),
                 if 10 < length (redis_lists
                        (save_turn env sid prompt (msg_content m) (sid @ ''_'' @ u1)
                           (sid @ ''_'' @ u2) es w) (get_session_key sid))
                 then [sid] else []),
            log_call (Redis_llen (get_session_key sid))
              (save_turn env sid prompt (msg_content m) (sid @ ''_'' @ u1)
                 (sid @ ''_'' @ u2) es w))"
  using assms
  by (simp add: finish_request_def loop_test_def client_llen_def Let_def)

lemma working_request:
  "\<exists>w'. handle_user_request working_env ''s1'' ''hola'' openai_settings ''u1'' ''u2''
           empty_world
         = Some (Inr (ResponseResult (Some ''ok''), []), w')"
proof -
  let ?w1 = "update_llm_settings (Some (provider_name openai_settings))
                   (Some (model_name openai_settings)) (Some (temperature openai_settings))
                   (Some (max_tokens openai_settings)) empty_world"
  let ?b = "build_augmented_prompt working_env ''s1'' ''hola''
              (analyze_user_input working_env ''hola'') ?w1"
  obtain ctx where c: "fst ?b = Inr ctx"
    using build_returns[of working_env "''s1''" "''hola''"
        "analyze_user_input working_env ''hola''" ?w1]
    by (auto simp: working_env_def)
  have b: "?b = (Inr ctx, snd ?b)"
    using c by (simp add: prod_eq_iff)
  have p: "get_provider working_env (provider_name openai_settings)
      (model_name openai_settings) = Some (Provider OpenAIProvider ''gpt-4o-mini'')"
    by (simp add: get_provider_def working_env_def openai_settings_def)
  let ?g = "generate_response working_env (Provider OpenAIProvider ''gpt-4o-mini'')
      (Some ''hola'')
      (RoleContent ''system'' (Some (ctx_system_prompt ctx)) # map entry_of_turn (ctx_history ctx))
      (ctx_tools ctx) (Some (temperature openai_settings)) (Some (max_tokens openai_settings))
      (snd ?b)"
  have r: "fst (fst ?g) = MessageObject (Message ''assistant'' (Some ''ok'') None)"
    by (simp add: generate_response_def openai_generate_response_def working_env_def Let_def)
  have g: "?g = ((MessageObject (Message ''assistant'' (Some ''ok'') None), snd (fst ?g)), snd ?g)"
    using r by (simp add: prod_eq_iff)
  have l: "loop_test (Some (MessageObject (Message ''assistant'' (Some ''ok'') None)))
      \<noteq> Inr True"
    by (simp add: loop_test_def)
  have e: "redis_lists (snd ?b) = (\<lambda>k. [])"
    using build_quiet[of ?w1 working_env "''s1''" "''hola''"
        "analyze_user_input working_env ''hola''"]
    by (simp add: no_persistence_def same_stores_def empty_world_def)
  have k: "redis_client working_env" "\<And>e. \<not> redis_error working_env e"
    by (simp_all add: working_env_def)
  have f: "finish_request working_env ''s1'' ''hola'' (ctx_entities ctx) ''u1'' ''u2''
           \<lparr>ls_response = Some (MessageObject (Message ''assistant'' (Some ''ok'') None)),
            ls_history = snd (fst ?g), ls_world = snd ?g, ls_raised = None\<rparr>
      = (Inr (ResponseResult (Some ''ok''), []),
         log_call (Redis_llen (get_session_key ''s1''))
              (save_turn working_env ''s1'' ''hola'' (Some ''ok'') (''s1'' @ ''_'' @ ''u1'')
                 (''s1'' @ ''_'' @ ''u2'') (ctx_entities ctx) (snd ?g)))"
    by (subst finish_request_result) (simp_all add: k save_turn_redis_lists e)
  show ?thesis
    using handle_user_request_no_tools[OF b p g l, of "''u1''" "''u2''"] f by simp
qed

lemma working_entities: "extracted_entities working_env t = []"
proof -
  have "get_provider working_env ''openai'' ''gpt-3.5-turbo''
      = Some (Provider OpenAIProvider ''gpt-3.5-turbo'')"
    by (simp add: get_provider_def working_env_def)
  then show ?thesis
    unfolding extracted_entities_def
    by (simp add: extract_entities_result parse_entities_def strip_def py_isspace_def
        startswith_def working_env_def)
qed

text \<open>
  Claim C3, as amended. When \<^verbatim>\<open>handle_user_request\<close> answers (it returns
  \<^verbatim>\<open>{"response": t}\<close>), the persistence calls issued during the request are, in this
  order and each once, whatever the number of tool rounds: the user turn and the final
  assistant turn pushed to the Redis list of the session; the final assistant turn, and
  only that turn, added to the similarity index when there is a collection; the user
  message and the assistant message written to the graph when there is a graph manager
  with a driver. Every tool execution comes before the first of these calls. Nothing is
  written to the relational store: both of its tables are what they were before the
  request, and the similarity index has grown by the assistant turn alone.
\<close>

theorem request_persists_once:
  assumes "handle_user_request env sid prompt settings u1 u2 w0
             = Some (Inr (ResponseResult t, tasks), w')"
  shows "filter is_persist (new_calls w0 w')
           = [Redis_rpush (get_session_key sid) (Turn ''user'' (Some prompt)),
              Redis_rpush (get_session_key sid) (Turn ''assistant'' t)]
             @ (if chroma_collection env
                then [Chroma_add sid t (sid @ ''_'' @ u2) ''assistant''] else [])
             @ (if neo4j_manager env \<and> neo4j_driver env
                then [Neo4j_create_message sid (sid @ ''_'' @ u1) ''user'' (Some prompt)
                        (misc_entities (extracted_entities env (Some prompt))),
                      Neo4j_create_message sid (sid @ ''_'' @ u2) ''assistant'' t
                        (misc_entities (extracted_entities env t))]
                else [])
         \<and> (\<exists>pre post. new_calls w0 w' = pre @ post
               \<and> list_all (\<lambda>e. \<not> is_persist e) pre
               \<and> list_all (\<lambda>e. \<not> is_plugin_call e) post)
         \<and> sessions_tbl w' = sessions_tbl w0
         \<and> session_info_tbl w' = session_info_tbl w0
         \<and> chroma_docs w'
             = chroma_docs w0
               @ (if chroma_collection env
                     \<and> \<not> chroma_raises env (Chroma_add sid t (sid @ ''_'' @ u2) ''assistant'')
                  then [ChromaEntry (sid @ ''_'' @ u2) t sid ''assistant''] else [])"
proof -
  let ?uid = "sid @ ''_'' @ u1" and ?aid = "sid @ ''_'' @ u2"
  let ?es = "extracted_entities env (Some prompt)"
  obtain w3 where q: "issues (\<lambda>e. \<not> is_persist e) w0 w3"
    and s: "same_stores w0 w3"
    and w': "w' = log_call (Redis_llen (get_session_key sid))
                    (save_turn env sid prompt t ?uid ?aid ?es w3)"
    and rc: "redis_client env"
    using handle_answered[OF assms] by blast
  obtain pre where pre: "trace w3 = trace w0 @ pre" "list_all (\<lambda>e. \<not> is_persist e) pre"
    using q by (auto simp: issues_iff)
  obtain evs where evs: "list_all addressed_to_gpt35 evs"
    and tr: "trace (save_turn env sid prompt t ?uid ?aid ?es w3) = trace w3
         @ (if redis_client env
            then [Redis_rpush (get_session_key sid) (Turn ''user'' (Some prompt)),
                  Redis_rpush (get_session_key sid) (Turn ''assistant'' t)]
            else [])
         @ (if chroma_collection env then [Chroma_add sid t ?aid ''assistant''] else [])
         @ (if neo4j_manager env
            then evs @
              (if neo4j_driver env
               then [Neo4j_create_message sid ?uid ''user'' (Some prompt) (misc_entities ?es),
                     Neo4j_create_message sid ?aid ''assistant'' t
                       (misc_entities (extracted_entities env t))]
               else [])
            else [])"
    using save_turn_trace[of env sid prompt t ?uid ?aid ?es w3] by blast
  define post where "post =
           [Redis_rpush (get_session_key sid) (Turn ''user'' (Some prompt)),
            Redis_rpush (get_session_key sid) (Turn ''assistant'' t)]
         @ (if chroma_collection env then [Chroma_add sid t ?aid ''assistant''] else [])
         @ (if neo4j_manager env
            then evs @
              (if neo4j_driver env
               then [Neo4j_create_message sid ?uid ''user'' (Some prompt) (misc_entities ?es),
                     Neo4j_create_message sid ?aid ''assistant'' t
                       (misc_entities (extracted_entities env t))]
               else [])
            else [])
         @ [Redis_llen (get_session_key sid)]"
  have "trace w' = trace w0 @ pre @ post"
    unfolding w' post_def using tr pre(1) rc by simp
  then have nc: "new_calls w0 w' = pre @ post"
    by (simp add: new_calls_def)
  have f1: "filter is_persist pre = []"
    using pre(2) by (auto simp: filter_empty_conv list_all_iff)
  have f0: "filter is_persist evs = []"
    using evs by (rule filter_gpt35)
  have f2: "filter is_persist post
           = [Redis_rpush (get_session_key sid) (Turn ''user'' (Some prompt)),
              Redis_rpush (get_session_key sid) (Turn ''assistant'' t)]
             @ (if chroma_collection env then [Chroma_add sid t ?aid ''assistant''] else [])
             @ (if neo4j_manager env \<and> neo4j_driver env
                then [Neo4j_create_message sid ?uid ''user'' (Some prompt) (misc_entities ?es),
                      Neo4j_create_message sid ?aid ''assistant'' t
                        (misc_entities (extracted_entities env t))]
                else [])"
    unfolding post_def using f0 by simp
  have "\<forall>e \<in> set evs. \<not> is_plugin_call e"
    using evs by (auto simp: list_all_iff dest: gpt35_not_plugin)
  then have p2: "list_all (\<lambda>e. \<not> is_plugin_call e) post"
    unfolding post_def by (auto simp: list_all_iff)
  have 1: "filter is_persist (new_calls w0 w')
           = [Redis_rpush (get_session_key sid) (Turn ''user'' (Some prompt)),
              Redis_rpush (get_session_key sid) (Turn ''assistant'' t)]
             @ (if chroma_collection env then [Chroma_add sid t ?aid ''assistant''] else [])
             @ (if neo4j_manager env \<and> neo4j_driver env
                then [Neo4j_create_message sid ?uid ''user'' (Some prompt) (misc_entities ?es),
                      Neo4j_create_message sid ?aid ''assistant'' t
                        (misc_entities (extracted_entities env t))]
                else [])"
    unfolding nc using f1 f2 by simp
  have 2: "\<exists>pre post. new_calls w0 w' = pre @ post
               \<and> list_all (\<lambda>e. \<not> is_persist e) pre
               \<and> list_all (\<lambda>e. \<not> is_plugin_call e) post"
    using nc pre(2) p2 by blast
  have 3: "sessions_tbl w' = sessions_tbl w0" "session_info_tbl w' = session_info_tbl w0"
    using s unfolding w' same_stores_def by (simp_all add: save_turn_sqlite)
  have 4: "chroma_docs w'
             = chroma_docs w0
               @ (if chroma_collection env
                     \<and> \<not> chroma_raises env (Chroma_add sid t ?aid ''assistant'')
                  then [ChromaEntry ?aid t sid ''assistant''] else [])"
    using s unfolding w' same_stores_def by (simp add: save_turn_chroma)
  show ?thesis
    using 1 2 3 4 by (intro conjI)
qed

theorem request_persists_once_witness:
  "map_option (\<lambda>r. (fst r, filter is_persist (trace (snd r))))
     (handle_user_request working_env ''s1'' ''hola'' openai_settings ''u1'' ''u2'' empty_world)
   = Some (Inr (ResponseResult (Some ''ok''), []),
           [Redis_rpush (get_session_key ''s1'') (Turn ''user'' (Some ''hola'')),
            Redis_rpush (get_session_key ''s1'') (Turn ''assistant'' (Some ''ok'')),
            Chroma_add ''s1'' (Some ''ok'') ''s1_u2'' ''assistant'',
            Neo4j_create_message ''s1'' ''s1_u1'' ''user'' (Some ''hola'') [],
            Neo4j_create_message ''s1'' ''s1_u2'' ''assistant'' (Some ''ok'') []])"
proof -
  obtain w' where h: "handle_user_request working_env ''s1'' ''hola'' openai_settings
      ''u1'' ''u2'' empty_world = Some (Inr (ResponseResult (Some ''ok''), []), w')"
    using working_request by blast
  have n: "new_calls empty_world w' = trace w'"
    by (simp add: new_calls_def empty_world_def)
  have e: "chroma_collection working_env" "neo4j_manager working_env"
      "neo4j_driver working_env"
    by (simp_all add: working_env_def)
  show ?thesis
    using request_persists_once[OF h] h
    by (simp add: n working_entities misc_entities_def e)
qed

text \<open>
  The claim as stated fails: in an environment where every backend works, the answered
  request leaves the relational store without a row for the session, and the similarity
  index holds the assistant turn only.
\<close>

theorem request_skips_relational_store:
  "map_option (\<lambda>r. (fst r, sessions_tbl (snd r) ''s1'', chroma_docs (snd r)))
     (handle_user_request working_env ''s1'' ''hola'' openai_settings ''u1'' ''u2'' empty_world)
   = Some (Inr (ResponseResult (Some ''ok''), []), None,
           [ChromaEntry ''s1_u2'' (Some ''ok'') ''s1'' ''assistant''])"
proof -
  obtain w' where h: "handle_user_request working_env ''s1'' ''hola'' openai_settings
      ''u1'' ''u2'' empty_world = Some (Inr (ResponseResult (Some ''ok''), []), w')"
    using working_request by blast
  obtain w3 where s: "same_stores empty_world w3"
    and w': "w' = log_call (Redis_llen (get_session_key ''s1''))
                    (save_turn working_env ''s1'' ''hola'' (Some ''ok'') (''s1'' @ ''_'' @ ''u1'')
                       (''s1'' @ ''_'' @ ''u2'')
                       (extracted_entities working_env (Some ''hola'')) w3)"
    using handle_answered[OF h] by blast
  have "sessions_tbl w' ''s1'' = None"
    using s unfolding w' same_stores_def
    by (simp add: save_turn_sqlite empty_world_def)
  moreover have "chroma_docs w' = [ChromaEntry ''s1_u2'' (Some ''ok'') ''s1'' ''assistant'']"
    using s unfolding w' same_stores_def
    by (simp add: save_turn_chroma empty_world_def working_env_def)
  ultimately show ?thesis
    using h by simp
qed

section \<open>A failing model call\<close>

text \<open>
  Claim C4 fails with the Gemini provider. \<^verbatim>\<open>GeminiProvider.generate_response\<close>
  catches the failure of the API call and returns the dictionary
  \<^verbatim>\<open>{"role": "assistant", "content": "Error de Gemini: ..."}\<close>; the test of the
  \<^verbatim>\<open>while\<close> loop (line 113) then reads \<^verbatim>\<open>response_message.tool_calls\<close>, which a
  dictionary does not have, and the \<^verbatim>\<open>AttributeError\<close> leaves
  \<^verbatim>\<open>handle_user_request\<close>: the caller gets an exception, not an answer.
\<close>

theorem gemini_failure_raises:
  "(\<forall>g. gemini_generate gemini_failing_env g = GeminiException ''quota'')
   \<and> map_option fst
        (handle_user_request gemini_failing_env ''s1'' ''hola'' gemini_settings
           ''u1'' ''u2'' empty_world)
      = Some (Inl AttributeError)"
proof -
  let ?w1 = "update_llm_settings (Some (provider_name gemini_settings))
                   (Some (model_name gemini_settings)) (Some (temperature gemini_settings))
                   (Some (max_tokens gemini_settings)) empty_world"
  let ?b = "build_augmented_prompt gemini_failing_env ''s1'' ''hola''
              (analyze_user_input gemini_failing_env ''hola'') ?w1"
  obtain ctx where c: "fst ?b = Inr ctx"
    using build_returns[of gemini_failing_env "''s1''" "''hola''"
        "analyze_user_input gemini_failing_env ''hola''" ?w1]
    by (auto simp: gemini_failing_env_def working_env_def)
  have b: "?b = (Inr ctx, snd ?b)"
    using c by (simp add: prod_eq_iff)
  have p: "get_provider gemini_failing_env (provider_name gemini_settings)
      (model_name gemini_settings) = Some (Provider GeminiProvider ''gemini-pro'')"
    by (simp add: get_provider_def gemini_failing_env_def working_env_def gemini_settings_def)
  let ?g = "generate_response gemini_failing_env (Provider GeminiProvider ''gemini-pro'')
      (Some ''hola'')
      (RoleContent ''system'' (Some (ctx_system_prompt ctx)) # map entry_of_turn (ctx_history ctx))
      (ctx_tools ctx) (Some (temperature gemini_settings)) (Some (max_tokens gemini_settings))
      (snd ?b)"
  have r: "fst (fst ?g) = DictResponse ''assistant'' (''Error de Gemini: '' @ ''quota'')"
    by (simp add: generate_response_def gemini_generate_response_def gemini_failing_env_def
        working_env_def Let_def)
  have g: "?g = ((DictResponse ''assistant'' (''Error de Gemini: '' @ ''quota''), snd (fst ?g)),
                 snd ?g)"
    using r by (simp add: prod_eq_iff)
  have l: "loop_test (Some (DictResponse ''assistant'' (''Error de Gemini: '' @ ''quota'')))
      \<noteq> Inr True"
    by (simp add: loop_test_def)
  have f: "fst (finish_request gemini_failing_env ''s1'' ''hola'' (ctx_entities ctx) ''u1'' ''u2''
           \<lparr>ls_response = Some (DictResponse ''assistant'' (''Error de Gemini: '' @ ''quota'')),
            ls_history = snd (fst ?g), ls_world = snd ?g, ls_raised = None\<rparr>)
      = Inl AttributeError"
    by (simp add: finish_request_def loop_test_def)
  have "\<forall>g. gemini_generate gemini_failing_env g = GeminiException ''quota''"
    by (simp add: gemini_failing_env_def)
  then show ?thesis
    using handle_user_request_no_tools[OF b p g l, of "''u1''" "''u2''"] f by simp
qed

end
